theory Spec2Isabelle
  imports Main
begin

text \<open>
  A server that fetches tweets by id or by author, rewrites their text with a
  generative-text service and stores the result as articles. The source holds
  two files of the same server: the first (lines 1-541 of \<^verbatim>\<open>src/index.js\<close>)
  and a later rewrite (lines 542-995). Both are embedded; a definition that
  follows the first carries the suffix \<open>_v1\<close>, one that follows the second the
  suffix \<open>_v2\<close>, and a definition without a suffix is code that the two share
  word for word.
\<close>

section \<open>JavaScript values\<close>

text \<open>
  The server is JavaScript. A string is a sequence of UTF-16 code units, so
  \<open>slice\<close> and \<open>length\<close> count code units; a value that arrives from a JSON
  body is one of the JSON shapes, and a missing property reads as \<open>undefined\<close>.
  Numbers are modelled by their integer values (time stamps, status codes,
  lengths); fractions, NaN and the infinities are outside the model.
\<close>

type_synonym jsstring = "nat list"

definition lit :: "string \<Rightarrow> jsstring" where
  "lit s = map of_char s"

datatype jsval =
    JUndefined
  | JNull
  | JBool bool
  | JNum int
  | JStr jsstring
  | JArr "jsval list"
  | JObj "(jsstring \<times> jsval) list"

text \<open>An \<open>Error\<close> object: its \<open>message\<close> and, for a driver error, its \<open>code\<close>.\<close>

record jserror =
  err_message :: jsstring
  err_code :: "int option"

definition new_Error :: "jsstring \<Rightarrow> jserror" where
  "new_Error m = \<lparr>err_message = m, err_code = None\<rparr>"

text \<open>The engine's TypeError for a property read on \<open>undefined\<close> or \<open>null\<close> (V8's wording).\<close>

definition cannot_read :: "jsval \<Rightarrow> string \<Rightarrow> jserror" where
  "cannot_read v name =
     new_Error (lit ''Cannot read properties of '' @ (if v = JNull then lit ''null'' else lit ''undefined'')
                @ lit '' (reading '' @ [39] @ lit name @ [39] @ lit '')'')"

definition not_a_function :: "string \<Rightarrow> jserror" where
  "not_a_function expr = new_Error (lit expr @ lit '' is not a function'')"

definition not_iterable :: "string \<Rightarrow> jserror" where
  "not_iterable expr = new_Error (lit expr @ lit '' is not iterable'')"

fun truthy :: "jsval \<Rightarrow> bool" where
  "truthy JUndefined = False"
| "truthy JNull = False"
| "truthy (JBool b) = b"
| "truthy (JNum n) = (n \<noteq> 0)"
| "truthy (JStr s) = (s \<noteq> [])"
| "truthy (JArr xs) = True"
| "truthy (JObj kvs) = True"

text \<open>
  \<open>v.name\<close>. An object built by \<open>JSON.parse\<close> keeps the last value of a repeated
  key. None of the names the server reads is inherited from a prototype.
\<close>

fun get_prop :: "jsval \<Rightarrow> string \<Rightarrow> jserror + jsval" where
  "get_prop JUndefined name = Inl (cannot_read JUndefined name)"
| "get_prop JNull name = Inl (cannot_read JNull name)"
| "get_prop (JObj kvs) name =
     Inr (case map_of (rev kvs) (lit name) of None \<Rightarrow> JUndefined | Some v \<Rightarrow> v)"
| "get_prop (JArr xs) name =
     Inr (if name = ''length'' then JNum (int (length xs)) else JUndefined)"
| "get_prop (JStr s) name =
     Inr (if name = ''length'' then JNum (int (length s)) else JUndefined)"
| "get_prop (JBool b) name = Inr JUndefined"
| "get_prop (JNum n) name = Inr JUndefined"

text \<open>\<open>v?.name\<close>: \<open>undefined\<close> on \<open>undefined\<close> and \<open>null\<close>, never an exception.\<close>

definition opt_prop :: "jsval \<Rightarrow> string \<Rightarrow> jsval" where
  "opt_prop v name = (case get_prop v name of Inl e \<Rightarrow> JUndefined | Inr x \<Rightarrow> x)"

definition bind_err :: "jserror + 'a \<Rightarrow> ('a \<Rightarrow> jserror + 'b) \<Rightarrow> jserror + 'b" where
  "bind_err m f = (case m of Inl e \<Rightarrow> Inl e | Inr x \<Rightarrow> f x)"

text \<open>The first error of a list of results, left to right, or all the values.\<close>

fun sequence_err :: "(jserror + 'a) list \<Rightarrow> jserror + 'a list" where
  "sequence_err [] = Inr []"
| "sequence_err (Inl e # rs) = Inl e"
| "sequence_err (Inr x # rs) = (case sequence_err rs of Inl e \<Rightarrow> Inl e | Inr xs \<Rightarrow> Inr (x # xs))"

fun dec :: "nat \<Rightarrow> jsstring" where
  "dec n = (if n < 10 then [48 + n] else dec (n div 10) @ [48 + n mod 10])"

declare dec.simps [simp del]

text \<open>
  The text of a number. Up to \<open>Number.MAX_SAFE_INTEGER\<close> an integer prints as
  its decimal digits. Beyond it the text is the engine's (the shortest digits
  that read back as the same double, an exponent from \<open>1e+21\<close> on): a parameter
  that gives the first code unit and the rest, since the text is never empty.
\<close>

type_synonym number_text = "int \<Rightarrow> nat \<times> jsstring"

definition num_string :: "number_text \<Rightarrow> int \<Rightarrow> jsstring" where
  "num_string nt n =
     (if \<bar>n\<bar> \<le> 9007199254740991
      then (if n < 0 then 45 # dec (nat (- n)) else dec (nat n))
      else fst (nt n) # snd (nt n))"

fun join_comma :: "jsstring list \<Rightarrow> jsstring" where
  "join_comma [] = []"
| "join_comma [s] = s"
| "join_comma (s # t # ss) = s @ 44 # join_comma (t # ss)"

text \<open>
  The string a template literal, \<open>+\<close> on a string or \<open>new Date\<close> makes of a value.
  An object takes \<open>toString\<close> from its prototype and prints as
  \<open>[object Object]\<close>, unless it has a key \<open>toString\<close> of its own: the value of a
  JSON key is not a function, \<open>valueOf\<close> gives no primitive either, and the
  conversion throws a TypeError. An array joins the strings of its elements and
  throws where one of them does.
\<close>

fun to_string :: "number_text \<Rightarrow> jsval \<Rightarrow> jserror + jsstring" where
  "to_string nt JUndefined = Inr (lit ''undefined'')"
| "to_string nt JNull = Inr (lit ''null'')"
| "to_string nt (JBool b) = Inr (if b then lit ''true'' else lit ''false'')"
| "to_string nt (JNum n) = Inr (num_string nt n)"
| "to_string nt (JStr s) = Inr s"
| "to_string nt (JArr xs) =
     bind_err
       (sequence_err (map (\<lambda>v. if v = JUndefined \<or> v = JNull then Inr [] else to_string nt v) xs))
       (\<lambda>ss. Inr (join_comma ss))"
| "to_string nt (JObj kvs) =
     (if lit ''toString'' \<in> fst ` set kvs
      then Inl (new_Error (lit ''Cannot convert object to primitive value''))
      else Inr (lit ''[object Object]''))"

text \<open>\<open>v[i]\<close> for a literal index.\<close>

fun get_index :: "jsval \<Rightarrow> nat \<Rightarrow> string \<Rightarrow> jserror + jsval" where
  "get_index JUndefined i name = Inl (cannot_read JUndefined name)"
| "get_index JNull i name = Inl (cannot_read JNull name)"
| "get_index (JArr xs) i name = Inr (if i < length xs then xs ! i else JUndefined)"
| "get_index (JStr s) i name = Inr (if i < length s then JStr [s ! i] else JUndefined)"
| "get_index (JObj kvs) i name =
     Inr (case map_of (rev kvs) (dec i) of None \<Rightarrow> JUndefined | Some v \<Rightarrow> v)"
| "get_index (JBool b) i name = Inr JUndefined"
| "get_index (JNum n) i name = Inr JUndefined"

text \<open>\<open>v?.[i]\<close>.\<close>

definition opt_index :: "jsval \<Rightarrow> nat \<Rightarrow> jsval" where
  "opt_index v i = (case get_index v i [] of Inl e \<Rightarrow> JUndefined | Inr x \<Rightarrow> x)"

text \<open>\<open>v.slice(0, n)\<close>: strings and arrays have the method, nothing else does.\<close>

fun js_slice :: "jsval \<Rightarrow> nat \<Rightarrow> string \<Rightarrow> jserror + jsval" where
  "js_slice (JStr s) n expr = Inr (JStr (take n s))"
| "js_slice (JArr xs) n expr = Inr (JArr (take n xs))"
| "js_slice JUndefined n expr = Inl (cannot_read JUndefined ''slice'')"
| "js_slice JNull n expr = Inl (cannot_read JNull ''slice'')"
| "js_slice v n expr = Inl (not_a_function expr)"

subsection \<open>String methods used on the service's reply\<close>

definition is_space :: "nat \<Rightarrow> bool" where
  "is_space c \<longleftrightarrow>
     c \<in> {9, 10, 11, 12, 13, 32, 160, 5760, 8232, 8233, 8239, 8287, 12288, 65279}
     \<or> (8192 \<le> c \<and> c \<le> 8202)"

definition trim :: "jsstring \<Rightarrow> jsstring" where
  "trim s = rev (dropWhile is_space (rev (dropWhile is_space s)))"

definition fence :: jsstring where
  "fence = [96, 96, 96]"

definition fence_json :: jsstring where
  "fence_json = [96, 96, 96, 106, 115, 111, 110]"

text \<open>\<open>s.replace(/pat/g, "")\<close> for a literal pattern: leftmost matches, not overlapping.\<close>

fun delete_all :: "jsstring \<Rightarrow> jsstring \<Rightarrow> jsstring" where
  "delete_all pat [] = []"
| "delete_all pat (c # cs) =
     (if pat \<noteq> [] \<and> take (length pat) (c # cs) = pat
      then delete_all pat (drop (length pat) (c # cs))
      else c # delete_all pat cs)"

text \<open>\<open>s.replace(/```json|```/g, "")\<close>: the longer alternative is tried first.\<close>

fun delete_fences :: "jsstring \<Rightarrow> jsstring" where
  "delete_fences [] = []"
| "delete_fences (c # cs) =
     (if take 7 (c # cs) = fence_json then delete_fences (drop 7 (c # cs))
      else if take 3 (c # cs) = fence then delete_fences (drop 3 (c # cs))
      else c # delete_fences cs)"

section \<open>The services outside the process\<close>

text \<open>
  Every call that leaves the process is recorded as an event, and the answer of
  a service is a function of the events so far and of the call's arguments: a
  service may answer the same request differently the second time. The trace of
  events is the state that the functions below pass along.
\<close>

datatype prompt =
    TweetPrompt jsval
  | TextPrompt jsval jsval

datatype event =
    EvGenerate prompt
  | EvFetch jsstring
  | EvNow
  | EvSave jsval
  | EvUpdate jsval jsval

record response =
  resp_ok :: bool
  resp_status :: int
  resp_json :: "jserror + jsval"

text \<open>
  \<open>generateContent\<close>: the generative-text call, identified by the values
  interpolated into the function's fixed prompt template; \<open>json_parse\<close>:
  \<open>JSON.parse\<close>; \<open>date_now\<close>: the clock in milliseconds; \<open>http_fetch\<close>: \<open>fetch\<close>
  with the body that \<open>response.json()\<close> would give; \<open>article_save\<close>:
  \<open>new Article(doc).save()\<close>, an exception of the constructor being an error
  of the store like any other; \<open>find_by_id_and_update\<close>: the store's update
  (\<open>null\<close> for an unknown id); \<open>object_id_valid\<close>: the driver's check of an
  id's shape; \<open>to_locale_date\<close>: the date of a tweet as the embed shows it;
  \<open>number_text\<close>: the engine's text of a number beyond the safe integers.
\<close>

record env =
  generateContent :: "event list \<Rightarrow> prompt \<Rightarrow> jserror + jsval"
  json_parse :: "jsstring \<Rightarrow> jserror + jsval"
  date_now :: "event list \<Rightarrow> int"
  http_fetch :: "event list \<Rightarrow> jsstring \<Rightarrow> jserror + response"
  article_save :: "event list \<Rightarrow> jsval \<Rightarrow> jserror + jsval"
  find_by_id_and_update :: "event list \<Rightarrow> jsval \<Rightarrow> jsval \<Rightarrow> jserror + jsval"
  object_id_valid :: "jsval \<Rightarrow> bool"
  to_locale_date :: "jsval \<Rightarrow> jsstring"
  number_text :: number_text

text \<open>\<open>${v}\<close> in a template literal, and \<open>${n}\<close> for a number.\<close>

definition interp :: "env \<Rightarrow> jsval \<Rightarrow> jserror + jsstring" where
  "interp ev v = to_string (number_text ev) v"

definition interp_num :: "env \<Rightarrow> int \<Rightarrow> jsstring" where
  "interp_num ev n = num_string (number_text ev) n"

section \<open>The Gemini helpers\<close>

definition telugu_news :: jsstring where
  "telugu_news = [3125, 3134, 3120, 3149, 3108, 3122, 3137]"

text \<open>\<open>!v.k1 || !v.k2 || ...\<close>, left to right.\<close>

fun some_falsy :: "jsval \<Rightarrow> string list \<Rightarrow> jserror + bool" where
  "some_falsy v [] = Inr False"
| "some_falsy v (k # ks) =
     (case get_prop v k of
        Inl e \<Rightarrow> Inl e
      | Inr x \<Rightarrow> if truthy x then some_falsy v ks else Inr True)"

definition six_keys :: "string list" where
  "six_keys = [''title'', ''summary'', ''slug'', ''tags'', ''slug_te'', ''tags_te'']"

subsection \<open>First server file (lines 86-188)\<close>

definition clean_v1 :: "jsstring \<Rightarrow> jsstring" where
  "clean_v1 s = trim (delete_all fence (delete_all fence_json (trim s)))"

text \<open>The \<open>try\<close> block after the call has answered, shared by both helpers up to the keys checked.\<close>

definition read_reply_v1 :: "env \<Rightarrow> jsval \<Rightarrow> string list \<Rightarrow> jsstring \<Rightarrow> jserror + jsval" where
  "read_reply_v1 ev result keys incomplete =
     (if \<not> truthy result then Inl (new_Error (lit ''Gemini returned no text.''))
      else case get_prop result ''text'' of
        Inl e \<Rightarrow> Inl e
      | Inr t \<Rightarrow>
          if \<not> truthy t then Inl (new_Error (lit ''Gemini returned no text.''))
          else (case t of
            JStr s \<Rightarrow>
              (case json_parse ev (clean_v1 s) of
                 Inl e \<Rightarrow> Inl e
               | Inr parsedData \<Rightarrow>
                   (case some_falsy parsedData keys of
                      Inl e \<Rightarrow> Inl e
                    | Inr True \<Rightarrow> Inl (new_Error incomplete)
                    | Inr False \<Rightarrow> Inr parsedData))
          | _ \<Rightarrow> Inl (not_a_function ''result.text.trim'')))"

definition tweet_try_v1 :: "env \<Rightarrow> jsval \<Rightarrow> event list \<Rightarrow> (jserror + jsval) \<times> event list" where
  "tweet_try_v1 ev text tr =
     (case generateContent ev tr (TweetPrompt text) of
        Inl e \<Rightarrow> (Inl e, tr @ [EvGenerate (TweetPrompt text)])
      | Inr result \<Rightarrow>
          (read_reply_v1 ev result six_keys (lit ''Gemini returned incomplete JSON data.''),
           tr @ [EvGenerate (TweetPrompt text)]))"

text \<open>The \<open>catch\<close> block: \<open>text.slice\<close> is evaluated first, then the clock twice.\<close>

definition tweet_fallback_v1 :: "env \<Rightarrow> jsval \<Rightarrow> event list \<Rightarrow> (jserror + jsval) \<times> event list" where
  "tweet_fallback_v1 ev text tr =
     (case js_slice text 50 ''text.slice'' of
        Inl e \<Rightarrow> (Inl e, tr)
      | Inr title \<Rightarrow>
          (Inr (JObj
             [(lit ''title'', title),
              (lit ''summary'', text),
              (lit ''slug'', JStr (lit ''fallback-'' @ interp_num ev (date_now ev tr))),
              (lit ''tags'', JArr [JStr (lit ''news'')]),
              (lit ''slug_te'', JStr (lit ''fallback-te-'' @ interp_num ev (date_now ev (tr @ [EvNow])))),
              (lit ''tags_te'', JArr [JStr telugu_news])]),
           tr @ [EvNow, EvNow]))"

text \<open>
  The prompt, a template literal with \<open>${text}\<close>, is built before the \<open>try\<close>:
  where the conversion of the text throws, nothing catches it.
\<close>

definition formatTweetWithGemini_v1 :: "env \<Rightarrow> jsval \<Rightarrow> event list \<Rightarrow> (jserror + jsval) \<times> event list" where
  "formatTweetWithGemini_v1 ev text tr =
     (case interp ev text of
        Inl e \<Rightarrow> (Inl e, tr)
      | Inr shown \<Rightarrow>
          (case tweet_try_v1 ev text tr of
             (Inr parsedData, tr1) \<Rightarrow> (Inr parsedData, tr1)
           | (Inl e, tr1) \<Rightarrow> tweet_fallback_v1 ev text tr1))"

definition text_try_v1 :: "env \<Rightarrow> jsval \<Rightarrow> jsval \<Rightarrow> event list \<Rightarrow> (jserror + jsval) \<times> event list" where
  "text_try_v1 ev text instruction tr =
     (case generateContent ev tr (TextPrompt text instruction) of
        Inl e \<Rightarrow> (Inl e, tr @ [EvGenerate (TextPrompt text instruction)])
      | Inr result \<Rightarrow>
          (read_reply_v1 ev result [''title'', ''summary'']
             (lit ''Gemini returned incomplete JSON data (missing title or summary).''),
           tr @ [EvGenerate (TextPrompt text instruction)]))"

text \<open>
  Here too the prompt is built before the \<open>try\<close>, with \<open>${instruction}\<close> first
  and \<open>${text}\<close> after it. The \<open>catch\<close> block has nothing that throws.
\<close>

definition formatTextWithGemini_v1 ::
  "env \<Rightarrow> jsval \<Rightarrow> jsval \<Rightarrow> event list \<Rightarrow> (jserror + jsval) \<times> event list" where
  "formatTextWithGemini_v1 ev text instruction tr =
     (case bind_err (interp ev instruction) (\<lambda>shown. interp ev text) of
        Inl e \<Rightarrow> (Inl e, tr)
      | Inr shown \<Rightarrow>
          (case text_try_v1 ev text instruction tr of
             (Inr parsedData, tr1) \<Rightarrow> (Inr parsedData, tr1)
           | (Inl e, tr1) \<Rightarrow>
               (Inr (JObj [(lit ''title'', JStr (lit ''Error in Processing'')),
                           (lit ''summary'', JStr (err_message e))]), tr1)))"

subsection \<open>Second server file (lines 648-694)\<close>

text \<open>\<open>JSON.parse(result.text.replace(/```json|```/g, "").trim())\<close>, with nothing checked.\<close>

definition read_reply_v2 :: "env \<Rightarrow> jsval \<Rightarrow> jserror + jsval" where
  "read_reply_v2 ev result =
     (case get_prop result ''text'' of
        Inl e \<Rightarrow> Inl e
      | Inr t \<Rightarrow>
          (case t of
             JStr s \<Rightarrow> json_parse ev (trim (delete_fences s))
           | JUndefined \<Rightarrow> Inl (cannot_read JUndefined ''replace'')
           | JNull \<Rightarrow> Inl (cannot_read JNull ''replace'')
           | _ \<Rightarrow> Inl (not_a_function ''result.text.replace'')))"

definition tweet_try_v2 :: "env \<Rightarrow> jsval \<Rightarrow> event list \<Rightarrow> (jserror + jsval) \<times> event list" where
  "tweet_try_v2 ev text tr =
     (case generateContent ev tr (TweetPrompt text) of
        Inl e \<Rightarrow> (Inl e, tr @ [EvGenerate (TweetPrompt text)])
      | Inr result \<Rightarrow> (read_reply_v2 ev result, tr @ [EvGenerate (TweetPrompt text)]))"

text \<open>
  The \<open>catch\<close> block. \<open>text.slice(0, 60)\<close> is evaluated for the title and again
  for the slug, where the clock is read and then \<open>+\<close> makes a string of the
  slice: of an array that is the join of its elements, which can throw.
\<close>

definition tweet_fallback_v2 :: "env \<Rightarrow> jsval \<Rightarrow> event list \<Rightarrow> (jserror + jsval) \<times> event list" where
  "tweet_fallback_v2 ev text tr =
     (case js_slice text 60 ''text.slice'' of
        Inl e \<Rightarrow> (Inl e, tr)
      | Inr title \<Rightarrow>
          (case interp ev title of
             Inl e \<Rightarrow> (Inl e, tr @ [EvNow])
           | Inr shown \<Rightarrow>
               (Inr (JObj
                  [(lit ''title'', title),
                   (lit ''summary'', text),
                   (lit ''slug'', JStr (shown @ interp_num ev (date_now ev tr))),
                   (lit ''tags'', JArr [JStr (lit ''news'')]),
                   (lit ''slug_te'', JStr (lit ''fallback-te-'' @ interp_num ev (date_now ev (tr @ [EvNow])))),
                   (lit ''tags_te'', JArr [JStr telugu_news])]),
                tr @ [EvNow, EvNow])))"

definition formatTweetWithGemini_v2 :: "env \<Rightarrow> jsval \<Rightarrow> event list \<Rightarrow> (jserror + jsval) \<times> event list" where
  "formatTweetWithGemini_v2 ev text tr =
     (case interp ev text of
        Inl e \<Rightarrow> (Inl e, tr)
      | Inr shown \<Rightarrow>
          (case tweet_try_v2 ev text tr of
             (Inr parsed, tr1) \<Rightarrow> (Inr parsed, tr1)
           | (Inl e, tr1) \<Rightarrow> tweet_fallback_v2 ev text tr1))"

definition text_try_v2 :: "env \<Rightarrow> jsval \<Rightarrow> jsval \<Rightarrow> event list \<Rightarrow> (jserror + jsval) \<times> event list" where
  "text_try_v2 ev text instruction tr =
     (case generateContent ev tr (TextPrompt text instruction) of
        Inl e \<Rightarrow> (Inl e, tr @ [EvGenerate (TextPrompt text instruction)])
      | Inr result \<Rightarrow> (read_reply_v2 ev result, tr @ [EvGenerate (TextPrompt text instruction)]))"

definition formatTextWithGemini_v2 ::
  "env \<Rightarrow> jsval \<Rightarrow> jsval \<Rightarrow> event list \<Rightarrow> (jserror + jsval) \<times> event list" where
  "formatTextWithGemini_v2 ev text instruction tr =
     (case bind_err (interp ev instruction) (\<lambda>shown. interp ev text) of
        Inl e \<Rightarrow> (Inl e, tr)
      | Inr shown \<Rightarrow>
          (case text_try_v2 ev text instruction tr of
             (Inr parsed, tr1) \<Rightarrow> (Inr parsed, tr1)
           | (Inl e, tr1) \<Rightarrow>
               (Inr (JObj [(lit ''title'', JStr (lit ''Error'')),
                           (lit ''summary'', JStr (err_message e))]), tr1)))"

section \<open>Processing one tweet\<close>

text \<open>\<open>{success: true, data}\<close> or \<open>{success: false, id, reason}\<close>.\<close>

datatype outcome =
    Success jsval
  | Failure jsval jsstring

definition nl :: jsstring where
  "nl = [10]"

definition dq :: jsstring where
  "dq = [34]"

text \<open>The URL of the request, a template literal with \<open>${tweetId}\<close>.\<close>

definition tweets_url :: "env \<Rightarrow> jsval \<Rightarrow> jserror + jsstring" where
  "tweets_url ev tweetId =
     bind_err (interp ev tweetId) (\<lambda>shown.
       Inr (lit ''https://api.twitterapi.io/twitter/tweets?tweet_ids='' @ shown))"

text \<open>\<open>tweet.extendedEntities?.media?.[0]?.media_url_https || null\<close>\<close>

definition featuredImage :: "jsval \<Rightarrow> jsval" where
  "featuredImage tweet =
     (let m = opt_prop (opt_index (opt_prop (opt_prop tweet ''extendedEntities'') ''media'') 0)
                ''media_url_https''
      in if truthy m then m else JNull)"

subsection \<open>First server file (lines 192-271)\<close>

text \<open>Step 1: from the answer of the fetch to \<open>data.tweets[0]\<close>.\<close>

definition pick_tweet_v1 :: "env \<Rightarrow> response \<Rightarrow> jserror + jsval" where
  "pick_tweet_v1 ev r =
     (if \<not> resp_ok r
      then Inl (new_Error (lit ''Twitter API request failed with status '' @ interp_num ev (resp_status r)))
      else bind_err (resp_json r) (\<lambda>data.
           bind_err (get_prop data ''status'') (\<lambda>st.
             if st \<noteq> JStr (lit ''success'') then Inl (new_Error (lit ''Not found or API error''))
             else bind_err (get_prop data ''tweets'') (\<lambda>tweets.
               if \<not> truthy tweets then Inl (new_Error (lit ''Not found or API error''))
               else bind_err (get_prop tweets ''length'') (\<lambda>len.
                 if len = JNum 0 then Inl (new_Error (lit ''Not found or API error''))
                 else get_index tweets 0 ''0'')))))"

text \<open>
  Step 3: the embed markup. Each \<open>${...}\<close> is evaluated and made a string in
  turn, left to right. \<open>tweet.author\<close> is read twice with the same value; a read
  of an object that was read before cannot throw.
\<close>

definition twitterEmbed_v1 :: "env \<Rightarrow> jsval \<Rightarrow> jsstring \<Rightarrow> jserror + jsstring" where
  "twitterEmbed_v1 ev tweet tweetDate =
     bind_err (get_prop tweet ''lang'') (\<lambda>lang.
     bind_err (interp ev (if truthy lang then lang else JStr (lit ''en''))) (\<lambda>lang_s.
     bind_err (interp ev (opt_prop tweet ''text'')) (\<lambda>text_s.
     bind_err (get_prop (opt_prop tweet ''author'') ''name'') (\<lambda>name.
     bind_err (interp ev name) (\<lambda>name_s.
     bind_err (interp ev (opt_prop (opt_prop tweet ''author'') ''userName'')) (\<lambda>userName_s.
     bind_err (interp ev (opt_prop tweet ''url'')) (\<lambda>url_s.
       Inr (nl @ lit ''      <blockquote class='' @ dq @ lit ''twitter-tweet'' @ dq
            @ lit '' data-media-max-width='' @ dq @ lit ''560'' @ dq @ lit ''>'' @ nl
            @ lit ''        <p lang='' @ dq @ lang_s @ dq
            @ lit '' dir='' @ dq @ lit ''ltr'' @ dq @ lit ''>'' @ text_s @ lit ''</p>'' @ nl
            @ lit ''        &mdash; '' @ name_s
            @ lit '' (@'' @ userName_s @ lit '') '' @ nl
            @ lit ''        <a href='' @ dq @ url_s @ dq @ lit ''>'' @ tweetDate @ lit ''</a>'' @ nl
            @ lit ''      </blockquote>'' @ nl
            @ lit ''      <script async src='' @ dq @ lit ''https://platform.twitter.com/widgets.js'' @ dq
            @ lit '' charset='' @ dq @ lit ''utf-8'' @ dq @ lit ''></script>'' @ nl
            @ lit ''    ''))))))))"

text \<open>
  Steps 3 and 4 up to \<open>new Article({...})\<close>. \<open>new Date(tweet.createdAt)\<close> makes a
  primitive of its argument and throws where the conversion to a string does.
  Nothing throws after \<open>new Date()\<close> has read the clock, so the reading \<open>now\<close> is
  a parameter.
\<close>

definition newArticle_v1 :: "env \<Rightarrow> jsval \<Rightarrow> jsval \<Rightarrow> int \<Rightarrow> jserror + jsval" where
  "newArticle_v1 ev tweet geminiResult now =
     bind_err (get_prop tweet ''createdAt'') (\<lambda>createdAt.
     bind_err (interp ev createdAt) (\<lambda>shown.
     bind_err (twitterEmbed_v1 ev tweet (to_locale_date ev createdAt)) (\<lambda>twitterEmbed.
     bind_err (get_prop geminiResult ''summary'') (\<lambda>summary.
     bind_err (interp ev summary) (\<lambda>liveContent.
     bind_err (if truthy summary then Inr summary
               else bind_err (interp ev (opt_prop tweet ''text'')) (\<lambda>text_s.
                      Inr (JStr (lit ''<p>'' @ text_s @ lit ''</p>'')))) (\<lambda>content.
       Inr (JObj
         [(lit ''title'', opt_prop geminiResult ''title''),
          (lit ''slug'', opt_prop geminiResult ''slug''),
          (lit ''summary'', summary),
          (lit ''content'', content),
          (lit ''liveContent'', JStr liveContent),
          (lit ''isFullArticle'', JBool False),
          (lit ''author'', JStr (lit ''Vijay'')),
          (lit ''category'', JStr (lit ''news'')),
          (lit ''featuredImage'', featuredImage tweet),
          (lit ''featuredVideo'', JStr []),
          (lit ''tags'', opt_prop geminiResult ''tags''),
          (lit ''publishedDate'', JNum now),
          (lit ''status'', JStr (lit ''draft'')),
          (lit ''tweetId'', opt_prop tweet ''id''),
          (lit ''tweetUrl'', opt_prop tweet ''url''),
          (lit ''twitterEmbed'', JStr twitterEmbed),
          (lit ''slug_te'', opt_prop geminiResult ''slug_te''),
          (lit ''tags_te'', opt_prop geminiResult ''tags_te'')])))))))"

text \<open>The \<open>try\<close> block. The URL is built first; no fetch is made when that throws.\<close>

definition processTweetId_try_v1 :: "env \<Rightarrow> jsval \<Rightarrow> event list \<Rightarrow> (jserror + jsval) \<times> event list" where
  "processTweetId_try_v1 ev tweetId tr =
     (case tweets_url ev tweetId of
        Inl e \<Rightarrow> (Inl e, tr)
      | Inr url \<Rightarrow>
          (let tr1 = tr @ [EvFetch url] in
           case bind_err (http_fetch ev tr url) (pick_tweet_v1 ev) of
             Inl e \<Rightarrow> (Inl e, tr1)
           | Inr tweet \<Rightarrow>
               (case get_prop tweet ''text'' of
                  Inl e \<Rightarrow> (Inl e, tr1)
                | Inr text \<Rightarrow>
                    (case formatTweetWithGemini_v1 ev text tr1 of
                       (Inl e, tr2) \<Rightarrow> (Inl e, tr2)
                     | (Inr geminiResult, tr2) \<Rightarrow>
                         (case newArticle_v1 ev tweet geminiResult (date_now ev tr2) of
                            Inl e \<Rightarrow> (Inl e, tr2)
                          | Inr doc \<Rightarrow>
                              (article_save ev (tr2 @ [EvNow]) doc, tr2 @ [EvNow, EvSave doc]))))))"

text \<open>
  The \<open>catch\<close> block logs with a template literal that holds \<open>${tweetId}\<close>
  (line 265) before it builds the failure value: where the conversion of the id
  throws, the exception leaves the function (\<open>Inl\<close>).
\<close>

definition processTweetId_v1 :: "env \<Rightarrow> jsval \<Rightarrow> event list \<Rightarrow> (jserror + outcome) \<times> event list" where
  "processTweetId_v1 ev tweetId tr =
     (case processTweetId_try_v1 ev tweetId tr of
        (Inr savedArticle, tr') \<Rightarrow> (Inr (Success savedArticle), tr')
      | (Inl e, tr') \<Rightarrow>
          (case interp ev tweetId of
             Inl e' \<Rightarrow> (Inl e', tr')
           | Inr shown \<Rightarrow> (Inr (Failure tweetId (err_message e)), tr')))"

subsection \<open>Second server file (lines 699-750)\<close>

definition pick_tweet_v2 :: "response \<Rightarrow> jserror + jsval" where
  "pick_tweet_v2 r =
     (if \<not> resp_ok r then Inl (new_Error (lit ''Twitter API request failed''))
      else bind_err (resp_json r) (\<lambda>data.
             if \<not> truthy (opt_index (opt_prop data ''tweets'') 0)
             then Inl (new_Error (lit ''Tweet not found''))
             else Inr (opt_index (opt_prop data ''tweets'') 0)))"

definition twitterEmbed_v2 :: "env \<Rightarrow> jsval \<Rightarrow> jserror + jsstring" where
  "twitterEmbed_v2 ev tweet =
     bind_err (get_prop tweet ''text'') (\<lambda>text.
     bind_err (interp ev text) (\<lambda>text_s.
     bind_err (get_prop (opt_prop tweet ''author'') ''name'') (\<lambda>name.
     bind_err (interp ev name) (\<lambda>name_s.
     bind_err (interp ev (opt_prop (opt_prop tweet ''author'') ''userName'')) (\<lambda>userName_s.
     bind_err (interp ev (opt_prop tweet ''url'')) (\<lambda>url_s.
     bind_err (interp ev (opt_prop tweet ''createdAt'')) (\<lambda>createdAt_s.
       Inr (nl @ lit ''      <blockquote class='' @ dq @ lit ''twitter-tweet'' @ dq @ lit ''>'' @ nl
            @ lit ''        <p>'' @ text_s @ lit ''</p>'' @ nl
            @ lit ''        '' @ [8212] @ lit '' '' @ name_s
            @ lit '' (@'' @ userName_s @ lit '')'' @ nl
            @ lit ''        <a href='' @ dq @ url_s @ dq @ lit ''>'' @ createdAt_s @ lit ''</a>'' @ nl
            @ lit ''      </blockquote>'' @ nl
            @ lit ''      <script async src='' @ dq @ lit ''https://platform.twitter.com/widgets.js'' @ dq
            @ lit ''></script>'' @ nl
            @ lit ''    ''))))))))"

definition newArticle_v2 :: "env \<Rightarrow> jsval \<Rightarrow> jsval \<Rightarrow> int \<Rightarrow> jserror + jsval" where
  "newArticle_v2 ev tweet geminiData now =
     bind_err (twitterEmbed_v2 ev tweet) (\<lambda>twitterEmbed.
     bind_err (get_prop geminiData ''title'') (\<lambda>title.
       Inr (JObj
         [(lit ''title'', title),
          (lit ''summary'', opt_prop geminiData ''summary''),
          (lit ''slug'', opt_prop geminiData ''slug''),
          (lit ''slug_te'', opt_prop geminiData ''slug_te''),
          (lit ''tags'', opt_prop geminiData ''tags''),
          (lit ''tags_te'', opt_prop geminiData ''tags_te''),
          (lit ''content'', opt_prop geminiData ''summary''),
          (lit ''liveContent'', opt_prop geminiData ''summary''),
          (lit ''tweetId'', opt_prop tweet ''id''),
          (lit ''tweetUrl'', opt_prop tweet ''url''),
          (lit ''featuredImage'', featuredImage tweet),
          (lit ''twitterEmbed'', JStr twitterEmbed),
          (lit ''author'', JStr (lit ''Vijay'')),
          (lit ''category'', JStr (lit ''news'')),
          (lit ''publishedDate'', JNum now),
          (lit ''status'', JStr (lit ''published'')),
          (lit ''type'', JStr (lit ''twitter''))])))"

definition processTweetId_try_v2 :: "env \<Rightarrow> jsval \<Rightarrow> event list \<Rightarrow> (jserror + jsval) \<times> event list" where
  "processTweetId_try_v2 ev tweetId tr =
     (case tweets_url ev tweetId of
        Inl e \<Rightarrow> (Inl e, tr)
      | Inr url \<Rightarrow>
          (let tr1 = tr @ [EvFetch url] in
           case bind_err (http_fetch ev tr url) pick_tweet_v2 of
             Inl e \<Rightarrow> (Inl e, tr1)
           | Inr tweet \<Rightarrow>
               (case get_prop tweet ''text'' of
                  Inl e \<Rightarrow> (Inl e, tr1)
                | Inr text \<Rightarrow>
                    (case formatTweetWithGemini_v2 ev text tr1 of
                       (Inl e, tr2) \<Rightarrow> (Inl e, tr2)
                     | (Inr geminiData, tr2) \<Rightarrow>
                         (case newArticle_v2 ev tweet geminiData (date_now ev tr2) of
                            Inl e \<Rightarrow> (Inl e, tr2)
                          | Inr doc \<Rightarrow>
                              (article_save ev (tr2 @ [EvNow]) doc, tr2 @ [EvNow, EvSave doc]))))))"

text \<open>
  The \<open>catch\<close> block only builds the failure value, so this function has no
  exception to give; its result has the type of the first file's for the loops
  that call either.
\<close>

definition processTweetId_v2 :: "env \<Rightarrow> jsval \<Rightarrow> event list \<Rightarrow> (jserror + outcome) \<times> event list" where
  "processTweetId_v2 ev tweetId tr =
     (case processTweetId_try_v2 ev tweetId tr of
        (Inr savedArticle, tr') \<Rightarrow> (Inr (Success savedArticle), tr')
      | (Inl e, tr') \<Rightarrow> (Inr (Failure tweetId (err_message e)), tr'))"

section \<open>The dedup cache\<close>

text \<open>
  \<open>processedTweetCache\<close> is a \<open>Map\<close>: entries in insertion order, keys compared by
  SameValueZero. A string, a number, a boolean, \<open>null\<close> and \<open>undefined\<close> are
  compared by value; an object or an array only equals itself, and every payload
  object is fresh, so such a key is never found again.
\<close>

type_synonym cache = "(jsval \<times> int) list"

definition CACHE_DURATION_MS :: int where
  "CACHE_DURATION_MS = 12 * 60 * 60 * 1000"

fun same_value_zero :: "jsval \<Rightarrow> jsval \<Rightarrow> bool" where
  "same_value_zero (JArr xs) k = False"
| "same_value_zero (JObj kvs) k = False"
| "same_value_zero k' k = (k' = k)"

fun cache_get :: "cache \<Rightarrow> jsval \<Rightarrow> int option" where
  "cache_get [] k = None"
| "cache_get ((k', v) # c) k = (if same_value_zero k' k then Some v else cache_get c k)"

fun cache_set :: "cache \<Rightarrow> jsval \<Rightarrow> int \<Rightarrow> cache" where
  "cache_set [] k v = [(k, v)]"
| "cache_set ((k', v') # c) k v =
     (if same_value_zero k' k then (k', v) # c else (k', v') # cache_set c k v)"

text \<open>\<open>cacheEntry && (now - cacheEntry < CACHE_DURATION_MS)\<close>: a stored 0 is falsy.\<close>

definition cache_hit :: "cache \<Rightarrow> int \<Rightarrow> jsval \<Rightarrow> bool" where
  "cache_hit c now tweetId =
     (case cache_get c tweetId of
        None \<Rightarrow> False
      | Some cacheEntry \<Rightarrow> cacheEntry \<noteq> 0 \<and> now - cacheEntry < CACHE_DURATION_MS)"

section \<open>The endpoints\<close>

text \<open>
  A handler answers with a status and a JSON body, or an exception leaves it
  (\<open>Inl\<close>) and the framework deals with the request. Destructuring a body
  that is \<open>undefined\<close> or \<open>null\<close> is such an exception; the model gives it the
  message of a property read. One request runs from start to end: requests that
  interleave at an \<open>await\<close> are outside the model.
\<close>

record reply =
  reply_status :: nat
  reply_body :: jsval

definition send :: "nat \<Rightarrow> (string \<times> jsval) list \<Rightarrow> jserror + reply" where
  "send c kvs = Inr \<lparr>reply_status = c, reply_body = JObj (map (\<lambda>(k, v). (lit k, v)) kvs)\<rparr>"

fun code_points :: "jsstring \<Rightarrow> jsstring list" where
  "code_points (a # b # cs) =
     (if 55296 \<le> a \<and> a \<le> 56319 \<and> 56320 \<le> b \<and> b \<le> 57343
      then [a, b] # code_points cs else [a] # code_points (b # cs))"
| "code_points [a] = [[a]]"
| "code_points [] = []"

text \<open>\<open>for (const x of v)\<close>: the values the loop runs over.\<close>

definition iterate :: "jsval \<Rightarrow> string \<Rightarrow> jserror + jsval list" where
  "iterate v expr =
     (case v of
        JArr xs \<Rightarrow> Inr xs
      | JStr s \<Rightarrow> Inr (map JStr (code_points s))
      | _ \<Rightarrow> Inl (not_iterable expr))"

text \<open>\<open>s.split(",")\<close>\<close>

fun split_comma :: "jsstring \<Rightarrow> jsstring list" where
  "split_comma [] = [[]]"
| "split_comma (c # cs) =
     (if c = 44 then [] # split_comma cs
      else (case split_comma cs of w # ws \<Rightarrow> (c # w) # ws | [] \<Rightarrow> [[c]]))"

text \<open>
  The loop over the ids, written four times in the source with the same body:
  \<open>processTweetId\<close>, then a push to one of the two lists. A failure is kept
  as the pair of \<open>result.id\<close> and \<open>result.reason\<close>. No loop is inside a \<open>try\<close>
  of its own: an exception of \<open>processTweetId\<close> ends it.
\<close>

fun processIds ::
  "(jsval \<Rightarrow> event list \<Rightarrow> (jserror + outcome) \<times> event list) \<Rightarrow> jsval list \<Rightarrow>
   jsval list \<Rightarrow> (jsval \<times> jsstring) list \<Rightarrow> event list \<Rightarrow>
   (jserror + jsval list \<times> (jsval \<times> jsstring) list) \<times> event list" where
  "processIds proc [] successfulPosts failedIds tr = (Inr (successfulPosts, failedIds), tr)"
| "processIds proc (tweetId # ids) successfulPosts failedIds tr =
     (case proc tweetId tr of
        (Inl e, tr1) \<Rightarrow> (Inl e, tr1)
      | (Inr (Success d), tr1) \<Rightarrow> processIds proc ids (successfulPosts @ [d]) failedIds tr1
      | (Inr (Failure i reason), tr1) \<Rightarrow>
          processIds proc ids successfulPosts (failedIds @ [(i, reason)]) tr1)"

definition failed_v1 :: "jsval \<times> jsstring \<Rightarrow> jsval" where
  "failed_v1 f = JObj [(lit ''id'', fst f), (lit ''reason'', JStr (snd f))]"

definition failed_v2 :: "jsval \<times> jsstring \<Rightarrow> jsval" where
  "failed_v2 f = JObj [(lit ''success'', JBool False), (lit ''id'', fst f), (lit ''reason'', JStr (snd f))]"

text \<open>Step 2 of the author endpoint: the tweets to process and the ids skipped.\<close>

fun partition_cached ::
  "cache \<Rightarrow> int \<Rightarrow> jsval list \<Rightarrow> jsval list \<Rightarrow> jsval list \<Rightarrow> jserror + (jsval list \<times> jsval list)" where
  "partition_cached c now [] tweetsToProcess skippedCachedIds = Inr (tweetsToProcess, skippedCachedIds)"
| "partition_cached c now (tweet # rest) tweetsToProcess skippedCachedIds =
     (case get_prop tweet ''id'' of
        Inl e \<Rightarrow> Inl e
      | Inr tweetId \<Rightarrow>
          if cache_hit c now tweetId
          then partition_cached c now rest tweetsToProcess (skippedCachedIds @ [tweetId])
          else partition_cached c now rest (tweetsToProcess @ [tweet]) skippedCachedIds)"

text \<open>
  Step 3: each tweet is processed, its outcome pushed, then its id marked. An
  exception of \<open>processTweetId\<close> ends the loop before the mark.
\<close>

fun process_tweets ::
  "(jsval \<Rightarrow> event list \<Rightarrow> (jserror + outcome) \<times> event list) \<Rightarrow> int \<Rightarrow> jsval list \<Rightarrow>
   jsval list \<Rightarrow> (jsval \<times> jsstring) list \<Rightarrow> cache \<Rightarrow> event list \<Rightarrow>
   (jserror + jsval list \<times> (jsval \<times> jsstring) list) \<times> cache \<times> event list" where
  "process_tweets proc now [] successfulPosts failedIds c tr = (Inr (successfulPosts, failedIds), c, tr)"
| "process_tweets proc now (tweet # rest) successfulPosts failedIds c tr =
     (case get_prop tweet ''id'' of
        Inl e \<Rightarrow> (Inl e, c, tr)
      | Inr tweetId \<Rightarrow>
          (case proc tweetId tr of
             (Inl e, tr1) \<Rightarrow> (Inl e, c, tr1)
           | (Inr (Success d), tr1) \<Rightarrow>
               process_tweets proc now rest (successfulPosts @ [d]) failedIds (cache_set c tweetId now) tr1
           | (Inr (Failure i reason), tr1) \<Rightarrow>
               process_tweets proc now rest successfulPosts (failedIds @ [(i, reason)])
                 (cache_set c tweetId now) tr1))"

text \<open>The URL of the author's feed, a template literal with \<open>${userName}\<close>.\<close>

definition user_url :: "env \<Rightarrow> jsval \<Rightarrow> jserror + jsstring" where
  "user_url ev userName =
     bind_err (interp ev userName) (\<lambda>shown.
       Inr (lit ''https://api.twitterapi.io/twitter/user/last_tweets?userName='' @ shown))"

subsection \<open>First server file (lines 276-491)\<close>

definition post_fetch_tweet_and_save_v1 :: "env \<Rightarrow> jsval \<Rightarrow> event list \<Rightarrow> (jserror + reply) \<times> event list" where
  "post_fetch_tweet_and_save_v1 ev body tr =
     (case get_prop body ''tweet_ids'' of
        Inl e \<Rightarrow> (Inl e, tr)
      | Inr tweet_ids \<Rightarrow>
          (case tweet_ids of
             JArr ids \<Rightarrow>
               if ids = []
               then (send 400 [(''error'', JStr (lit ''tweet_ids must be a non-empty array.''))], tr)
               else (case processIds (processTweetId_v1 ev) ids [] [] tr of
                 (Inl e, tr') \<Rightarrow> (Inl e, tr')
               | (Inr (successfulPosts, failedIds), tr') \<Rightarrow>
                   (send 200
                      [(''message'', JStr (lit ''Processed '' @ interp_num ev (int (length successfulPosts))
                                           @ lit '' of '' @ interp_num ev (int (length ids)) @ lit '' tweets.'')),
                       (''successfulPosts'', JArr successfulPosts),
                       (''failedIds'', JArr (map failed_v1 failedIds))], tr'))
           | _ \<Rightarrow> (send 400 [(''error'', JStr (lit ''tweet_ids must be a non-empty array.''))], tr)))"

definition get_fetch_tweet_and_save_v1 :: "env \<Rightarrow> jsval \<Rightarrow> event list \<Rightarrow> (jserror + reply) \<times> event list" where
  "get_fetch_tweet_and_save_v1 ev tweet_ids tr =
     (if \<not> truthy tweet_ids
      then (send 400 [(''error'', JStr (lit ''tweet_ids query parameter is required.''))], tr)
      else (case tweet_ids of
        JStr s \<Rightarrow>
          (let idsToProcess = filter (\<lambda>i. 0 < length i) (map trim (split_comma s)) in
           if length idsToProcess = 0
           then (send 400 [(''error'', JStr (lit ''No valid tweet_ids provided.''))], tr)
           else (case processIds (processTweetId_v1 ev) (map JStr idsToProcess) [] [] tr of
             (Inl e, tr') \<Rightarrow> (Inl e, tr')
           | (Inr (successfulPosts, failedIds), tr') \<Rightarrow>
               (send 200
                  [(''message'', JStr (lit ''Processed '' @ interp_num ev (int (length successfulPosts))
                                       @ lit '' of '' @ interp_num ev (int (length idsToProcess))
                                       @ lit '' tweets.'')),
                   (''successfulPosts'', JArr successfulPosts),
                   (''failedIds'', JArr (map failed_v1 failedIds))], tr')))
      | _ \<Rightarrow> (Inl (not_a_function ''tweet_ids.split''), tr)))"

text \<open>Step 1 of the author endpoint: from the answer of the fetch to \<open>data.tweets\<close>.\<close>

definition user_tweets_v1 :: "env \<Rightarrow> response \<Rightarrow> jserror + jsval" where
  "user_tweets_v1 ev r =
     (if \<not> resp_ok r
      then Inl (new_Error (lit ''Twitter User API request failed with status ''
                           @ interp_num ev (resp_status r)))
      else bind_err (resp_json r) (\<lambda>data.
           bind_err (get_prop data ''status'') (\<lambda>st.
             if st \<noteq> JStr (lit ''success'') \<or> \<not> truthy (opt_prop data ''tweets'')
             then Inl (new_Error (lit ''Not found or Twitter API error''))
             else Inr (opt_prop data ''tweets''))))"

definition error_500_v1 :: "jserror \<Rightarrow> jserror + reply" where
  "error_500_v1 e =
     send 500 [(''error'', JStr (lit ''Failed to process user's last tweets'')),
               (''details'', JStr (err_message e))]"

text \<open>
  The whole of the endpoint after the check of \<open>userName\<close> is in a \<open>try\<close>. Its
  \<open>catch\<close> block logs with a template literal that holds \<open>${userName}\<close> (line 414)
  before it answers 500: a user name whose conversion throws makes the URL throw
  in the \<open>try\<close> and the log throw in the \<open>catch\<close>, and the exception leaves
  the handler. Where the URL was built, the log cannot throw.
\<close>

definition get_user_last_tweets_v1 ::
  "env \<Rightarrow> jsval \<Rightarrow> cache \<Rightarrow> event list \<Rightarrow> (jserror + reply) \<times> cache \<times> event list" where
  "get_user_last_tweets_v1 ev userName c tr =
     (if \<not> truthy userName
      then (send 400 [(''error'', JStr (lit ''username query parameter is required.''))], c, tr)
      else
        (case user_url ev userName of
           Inl e \<Rightarrow> (Inl e, c, tr)
         | Inr url \<Rightarrow>
        (case bind_err (http_fetch ev tr url) (user_tweets_v1 ev) of
           Inl e \<Rightarrow> (error_500_v1 e, c, tr @ [EvFetch url])
         | Inr tweets \<Rightarrow>
             (let tr1 = tr @ [EvFetch url]; now = date_now ev tr1 in
              case bind_err (iterate tweets ''data.tweets'') (\<lambda>ts. partition_cached c now ts [] []) of
                Inl e \<Rightarrow> (error_500_v1 e, c, tr1 @ [EvNow])
              | Inr (tweetsToProcess, skippedCachedIds) \<Rightarrow>
                  (case process_tweets (processTweetId_v1 ev) now tweetsToProcess [] [] c (tr1 @ [EvNow]) of
                     (Inl e, c', tr') \<Rightarrow> (error_500_v1 e, c', tr')
                   | (Inr (successfulPosts, failedIds), c', tr') \<Rightarrow>
                       (case interp ev (opt_prop tweets ''length'') of
                          Inl e \<Rightarrow> (error_500_v1 e, c', tr')
                        | Inr fetched \<Rightarrow>
                       (send 200
                          [(''message'', JStr (lit ''Fetched '' @ fetched
                               @ lit '' tweets. Processed '' @ interp_num ev (int (length successfulPosts))
                               @ lit '', failed '' @ interp_num ev (int (length failedIds))
                               @ lit '', skipped '' @ interp_num ev (int (length skippedCachedIds))
                               @ lit '' (cached).'')),
                           (''successfulPosts'', JArr successfulPosts),
                           (''failedIds'', JArr (map failed_v1 failedIds)),
                           (''skippedCachedIds'', JArr skippedCachedIds)], c', tr')))))))"

text \<open>
  The endpoint's \<open>catch\<close> answers 500 when \<open>formatTextWithGemini\<close> throws, which
  it does where the prompt cannot be built.
\<close>

definition post_summarize_text_v1 :: "env \<Rightarrow> jsval \<Rightarrow> event list \<Rightarrow> (jserror + reply) \<times> event list" where
  "post_summarize_text_v1 ev body tr =
     (case get_prop body ''text'' of
        Inl e \<Rightarrow> (Inl e, tr)
      | Inr text \<Rightarrow>
          if \<not> truthy text \<or> \<not> truthy (opt_prop body ''instruction'')
          then (send 400 [(''error'',
                  JStr (lit ''Both '' @ [39] @ lit ''text'' @ [39] @ lit '' and '' @ [39] @ lit ''instruction''
                        @ [39] @ lit '' are required in the request body.''))], tr)
          else (case formatTextWithGemini_v1 ev text (opt_prop body ''instruction'') tr of
            (Inr geminiResult, tr') \<Rightarrow>
              (send 200 [(''success'', JBool True), (''data'', geminiResult)], tr')
          | (Inl e, tr') \<Rightarrow>
              (send 500 [(''success'', JBool False),
                         (''error'', JStr (lit ''Failed to process text'')),
                         (''details'', JStr (err_message e))], tr')))"

text \<open>\<open>delete updatedData._id\<close>\<close>

definition delete_id :: "jsval \<Rightarrow> jserror + jsval" where
  "delete_id v =
     (case v of
        JUndefined \<Rightarrow> Inl (new_Error (lit ''Cannot convert undefined or null to object''))
      | JNull \<Rightarrow> Inl (new_Error (lit ''Cannot convert undefined or null to object''))
      | JObj kvs \<Rightarrow> Inr (JObj (filter (\<lambda>kv. fst kv \<noteq> lit ''_id'') kvs))
      | _ \<Rightarrow> Inr v)"

text \<open>The handler first logs the id of the route in a template literal (line 447).\<close>

definition post_update_article_v1 :: "env \<Rightarrow> jsval \<Rightarrow> jsval \<Rightarrow> event list \<Rightarrow> (jserror + reply) \<times> event list" where
  "post_update_article_v1 ev articleId body tr =
     (case interp ev articleId of
        Inl e \<Rightarrow> (Inl e, tr)
      | Inr shown \<Rightarrow>
     (if \<not> object_id_valid ev articleId
      then (send 400 [(''error'', JStr (lit ''Invalid Article ID format.''))], tr)
      else (case delete_id body of
        Inl e \<Rightarrow> (Inl e, tr)
      | Inr updatedData \<Rightarrow>
          (case find_by_id_and_update ev tr articleId updatedData of
             Inl e \<Rightarrow>
               (if err_code e = Some 11000
                then send 409 [(''success'', JBool False),
                               (''error'', JStr (lit ''Update failed: Duplicate key.'')),
                               (''details'', JStr (lit ''A unique field (like slug or tweetId) already exists.''))]
                else send 500 [(''success'', JBool False),
                               (''error'', JStr (lit ''Failed to update article'')),
                               (''details'', JStr (err_message e))],
                tr @ [EvUpdate articleId updatedData])
           | Inr updatedArticle \<Rightarrow>
               (if \<not> truthy updatedArticle
                then send 404 [(''success'', JBool False), (''error'', JStr (lit ''Article not found.''))]
                else send 200 [(''success'', JBool True),
                               (''message'', JStr (lit ''Article updated successfully.'')),
                               (''data'', updatedArticle)],
                tr @ [EvUpdate articleId updatedData])))))"

subsection \<open>Second server file (lines 756-872)\<close>

definition post_fetch_tweet_and_save_v2 :: "env \<Rightarrow> jsval \<Rightarrow> event list \<Rightarrow> (jserror + reply) \<times> event list" where
  "post_fetch_tweet_and_save_v2 ev body tr =
     (case get_prop body ''tweet_ids'' of
        Inl e \<Rightarrow> (Inl e, tr)
      | Inr tweet_ids \<Rightarrow>
          if \<not> truthy tweet_ids then (send 400 [(''error'', JStr (lit ''tweet_ids required''))], tr)
          else (case iterate tweet_ids ''tweet_ids'' of
            Inl e \<Rightarrow> (Inl e, tr)
          | Inr ids \<Rightarrow>
              (case processIds (processTweetId_v2 ev) ids [] [] tr of
                 (Inl e, tr') \<Rightarrow> (Inl e, tr')
               | (Inr (success, failed), tr') \<Rightarrow>
                   (send 200 [(''success'', JArr success), (''failed'', JArr (map failed_v2 failed))], tr'))))"

text \<open>\<open>req.query.tweet_ids?.split(",") || []\<close>\<close>

definition get_fetch_tweet_and_save_v2 :: "env \<Rightarrow> jsval \<Rightarrow> event list \<Rightarrow> (jserror + reply) \<times> event list" where
  "get_fetch_tweet_and_save_v2 ev tweet_ids tr =
     (case (case tweet_ids of
              JUndefined \<Rightarrow> Inr []
            | JNull \<Rightarrow> Inr []
            | JStr s \<Rightarrow> Inr (map JStr (split_comma s))
            | _ \<Rightarrow> Inl (not_a_function ''req.query.tweet_ids?.split'')) of
        Inl e \<Rightarrow> (Inl e, tr)
      | Inr ids \<Rightarrow>
          (case processIds (processTweetId_v2 ev) ids [] [] tr of
             (Inl e, tr') \<Rightarrow> (Inl e, tr')
           | (Inr (success, failed), tr') \<Rightarrow>
               (send 200 [(''success'', JArr success), (''failed'', JArr (map failed_v2 failed))], tr')))"

text \<open>\<open>a ?? b\<close>\<close>

definition nullish_or :: "jsval \<Rightarrow> jsval \<Rightarrow> jsval" where
  "nullish_or a b = (if a = JUndefined \<or> a = JNull then b else a)"

text \<open>\<open>data?.tweets ?? data?.data?.tweets ?? data?.items ?? []\<close>\<close>

definition tweets_field_v2 :: "jsval \<Rightarrow> jsval" where
  "tweets_field_v2 data =
     nullish_or (opt_prop data ''tweets'')
       (nullish_or (opt_prop (opt_prop data ''data'') ''tweets'')
          (nullish_or (opt_prop data ''items'') (JArr [])))"

text \<open>\<open>if (!Array.isArray(tweets)) tweets = []\<close>\<close>

definition user_tweets_v2 :: "jsval \<Rightarrow> jsval list" where
  "user_tweets_v2 data = (case tweets_field_v2 data of JArr tweets \<Rightarrow> tweets | _ \<Rightarrow> [])"

definition error_500_v2 :: "jserror \<Rightarrow> jserror + reply" where
  "error_500_v2 e = send 500 [(''error'', JStr (err_message e))]"

text \<open>Here the \<open>catch\<close> block only answers; the URL is built inside the \<open>try\<close>.\<close>

definition get_user_last_tweets_v2 ::
  "env \<Rightarrow> jsval \<Rightarrow> cache \<Rightarrow> event list \<Rightarrow> (jserror + reply) \<times> cache \<times> event list" where
  "get_user_last_tweets_v2 ev userName c tr =
     (if \<not> truthy userName
      then (send 400 [(''error'', JStr (lit ''username required''))], c, tr)
      else
        (case user_url ev userName of
           Inl e \<Rightarrow> (error_500_v2 e, c, tr)
         | Inr url \<Rightarrow>
        (case bind_err (http_fetch ev tr url) resp_json of
           Inl e \<Rightarrow> (error_500_v2 e, c, tr @ [EvFetch url])
         | Inr data \<Rightarrow>
             (let tr1 = tr @ [EvFetch url]; now = date_now ev tr1 in
              case partition_cached c now (user_tweets_v2 data) [] [] of
                Inl e \<Rightarrow> (error_500_v2 e, c, tr1 @ [EvNow])
              | Inr (toProcess, skipped) \<Rightarrow>
                  (case process_tweets (processTweetId_v2 ev) now toProcess [] [] c (tr1 @ [EvNow]) of
                     (Inl e, c', tr') \<Rightarrow> (error_500_v2 e, c', tr')
                   | (Inr (success, failed), c', tr') \<Rightarrow>
                       (send 200
                          [(''success'', JArr success),
                           (''failed'', JArr (map failed_v2 failed)),
                           (''skipped'', JArr skipped)], c', tr'))))))"

text \<open>No \<open>try\<close> here: an exception of \<open>formatTextWithGemini\<close> leaves the handler.\<close>

definition post_summarize_text_v2 :: "env \<Rightarrow> jsval \<Rightarrow> event list \<Rightarrow> (jserror + reply) \<times> event list" where
  "post_summarize_text_v2 ev body tr =
     (case get_prop body ''text'' of
        Inl e \<Rightarrow> (Inl e, tr)
      | Inr text \<Rightarrow>
          (case formatTextWithGemini_v2 ev text (opt_prop body ''instruction'') tr of
             (Inr result, tr') \<Rightarrow> (send 200 [(''success'', JBool True), (''data'', result)], tr')
           | (Inl e, tr') \<Rightarrow> (Inl e, tr')))"

definition post_update_article_v2 :: "env \<Rightarrow> jsval \<Rightarrow> jsval \<Rightarrow> event list \<Rightarrow> (jserror + reply) \<times> event list" where
  "post_update_article_v2 ev articleId body tr =
     (case find_by_id_and_update ev tr articleId body of
        Inl e \<Rightarrow> (send 500 [(''error'', JStr (err_message e))], tr @ [EvUpdate articleId body])
      | Inr updated \<Rightarrow>
          (if \<not> truthy updated then send 404 [(''error'', JStr (lit ''Not found''))]
           else send 200 [(''success'', JBool True), (''data'', updated)],
           tr @ [EvUpdate articleId body]))"

section \<open>Notions of the specification and sample environments\<close>

text \<open>A string or list field that is present and not empty.\<close>

definition nonempty :: "jsval \<Rightarrow> bool" where
  "nonempty v = (case v of JStr s \<Rightarrow> s \<noteq> [] | JArr xs \<Rightarrow> xs \<noteq> [] | _ \<Rightarrow> False)"

definition six_nonempty :: "jsval \<Rightarrow> bool" where
  "six_nonempty v = list_all (\<lambda>k. nonempty (opt_prop v k)) six_keys"

definition six_truthy :: "jsval \<Rightarrow> bool" where
  "six_truthy v = list_all (\<lambda>k. truthy (opt_prop v k)) six_keys"

text \<open>The record \<open>{title, summary}\<close> that the free-text helper gives after a fault.\<close>

definition error_record :: "jsstring \<Rightarrow> jsstring \<Rightarrow> jsval" where
  "error_record title detail = JObj [(lit ''title'', JStr title), (lit ''summary'', JStr detail)]"

text \<open>A value that a template literal can make a string of.\<close>

definition printable :: "env \<Rightarrow> jsval \<Rightarrow> bool" where
  "printable ev v = (case interp ev v of Inl e \<Rightarrow> False | Inr s \<Rightarrow> True)"

text \<open>
  The specification's \<open>isRecentlyProcessed\<close>, in its words: an entry exists and
  \<open>now - entry.timestamp < TTL\<close>, the TTL being 12 hours.
\<close>

definition isRecentlyProcessed_spec :: "cache \<Rightarrow> int \<Rightarrow> jsval \<Rightarrow> bool" where
  "isRecentlyProcessed_spec c now k =
     (case cache_get c k of None \<Rightarrow> False | Some ts \<Rightarrow> now - ts < 43200000)"

text \<open>Every stored time stamp is a reading of the clock after the epoch's first millisecond.\<close>

definition cache_ok :: "cache \<Rightarrow> bool" where
  "cache_ok c = list_all (\<lambda>kv. snd kv \<noteq> 0) c"

text \<open>A key that the \<open>Map\<close> compares by value.\<close>

definition by_value :: "jsval \<Rightarrow> bool" where
  "by_value k = (case k of JArr xs \<Rightarrow> False | JObj kvs \<Rightarrow> False | _ \<Rightarrow> True)"

text \<open>The id of a tweet of the payload, and a tweet that is neither \<open>undefined\<close> nor \<open>null\<close>.\<close>

definition tweet_id :: "jsval \<Rightarrow> jsval" where
  "tweet_id t = opt_prop t ''id''"

definition present :: "jsval \<Rightarrow> bool" where
  "present t \<longleftrightarrow> t \<noteq> JUndefined \<and> t \<noteq> JNull"

text \<open>
  The tweets of a payload that are to be attempted and the ids that are to be
  skipped, by the specification's test, and the cache with every tweet of a list
  marked at \<open>now\<close>.
\<close>

definition attempted_tweets :: "cache \<Rightarrow> int \<Rightarrow> jsval list \<Rightarrow> jsval list" where
  "attempted_tweets c now tweets = filter (\<lambda>t. \<not> isRecentlyProcessed_spec c now (tweet_id t)) tweets"

definition skipped_ids :: "cache \<Rightarrow> int \<Rightarrow> jsval list \<Rightarrow> jsval list" where
  "skipped_ids c now tweets = map tweet_id (filter (\<lambda>t. isRecentlyProcessed_spec c now (tweet_id t)) tweets)"

definition mark_all :: "int \<Rightarrow> cache \<Rightarrow> jsval list \<Rightarrow> cache" where
  "mark_all now c tweets = foldl (\<lambda>c t. cache_set c (tweet_id t) now) c tweets"

text \<open>The URLs fetched in a trace, in order.\<close>

fun fetches :: "event list \<Rightarrow> jsstring list" where
  "fetches [] = []"
| "fetches (EvFetch u # evs) = u # fetches evs"
| "fetches (e # evs) = fetches evs"

text \<open>The URLs of the ids of a list, in order; an id of which no URL can be made has none.\<close>

definition urls_of :: "env \<Rightarrow> jsval list \<Rightarrow> jsstring list" where
  "urls_of ev ids = concat (map (\<lambda>i. case tweets_url ev i of Inl e \<Rightarrow> [] | Inr u \<Rightarrow> [u]) ids)"

text \<open>The errors of the services outside the process say what went wrong.\<close>

definition errors_described :: "env \<Rightarrow> bool" where
  "errors_described ev \<longleftrightarrow>
     (\<forall>tr url e. http_fetch ev tr url = Inl e \<longrightarrow> err_message e \<noteq> []) \<and>
     (\<forall>tr url r e. http_fetch ev tr url = Inr r \<longrightarrow> resp_json r = Inl e \<longrightarrow> err_message e \<noteq> []) \<and>
     (\<forall>tr doc e. article_save ev tr doc = Inl e \<longrightarrow> err_message e \<noteq> [])"

text \<open>
  What the loops rely on in \<open>processTweetId\<close>: one call fetches the URL of its
  id, once when there is one, and a failure names that id. A \<open>processTweetId\<close>
  answers on an id when, whatever happened before, it gives an outcome and no
  exception.
\<close>

definition one_attempt ::
  "env \<Rightarrow> (jsval \<Rightarrow> event list \<Rightarrow> (jserror + outcome) \<times> event list) \<Rightarrow> bool" where
  "one_attempt ev proc \<longleftrightarrow>
     (\<forall>i t r t'. proc i t = (r, t') \<longrightarrow>
        fetches t' = fetches t @ urls_of ev [i] \<and>
        (\<forall>j reason. r = Inr (Failure j reason) \<longrightarrow> j = i \<and> (errors_described ev \<longrightarrow> reason \<noteq> [])))"

definition answers :: "(jsval \<Rightarrow> event list \<Rightarrow> (jserror + outcome) \<times> event list) \<Rightarrow> jsval \<Rightarrow> bool" where
  "answers proc i \<longleftrightarrow> (\<forall>t. \<exists>out t'. proc i t = (Inr out, t'))"

definition sample_tweet :: "string \<Rightarrow> jsval" where
  "sample_tweet i =
     JObj [(lit ''id'', JStr (lit i)),
           (lit ''text'', JStr (lit ''Heavy rain in Hyderabad'')),
           (lit ''author'', JObj [(lit ''name'', JStr (lit ''News'')), (lit ''userName'', JStr (lit ''news''))]),
           (lit ''url'', JStr (lit ''https://x.com/news/status/'' @ lit i)),
           (lit ''createdAt'', JStr (lit ''Mon Nov 02 2026''))]"

definition duplicate_key :: jserror where
  "duplicate_key = \<lparr>err_message = lit ''E11000 duplicate key error'', err_code = Some 11000\<rparr>"

text \<open>The TypeError of a conversion, and an id that has a key \<open>toString\<close>.\<close>

definition no_primitive :: jserror where
  "no_primitive = new_Error (lit ''Cannot convert object to primitive value'')"

definition odd_id :: jsval where
  "odd_id = JObj [(lit ''toString'', JNum 1)]"

text \<open>The URL of the content API for a tweet id and for an author, as text.\<close>

definition url_of_id :: "string \<Rightarrow> jsstring" where
  "url_of_id i = lit ''https://api.twitterapi.io/twitter/tweets?tweet_ids='' @ lit i"

definition url_of_user :: "string \<Rightarrow> jsstring" where
  "url_of_user u = lit ''https://api.twitterapi.io/twitter/user/last_tweets?userName='' @ lit u"

text \<open>Every service is unreachable.\<close>

definition env_down :: env where
  "env_down = \<lparr>
     generateContent = (\<lambda>tr p. Inl (new_Error (lit ''fetch failed''))),
     json_parse = (\<lambda>s. Inl (new_Error (lit ''Unexpected end of JSON input''))),
     date_now = (\<lambda>tr. 1700000000000),
     http_fetch = (\<lambda>tr url. Inl (new_Error (lit ''fetch failed''))),
     article_save = (\<lambda>tr doc. Inl (new_Error (lit ''buffering timed out''))),
     find_by_id_and_update = (\<lambda>tr i d. Inl (new_Error (lit ''buffering timed out''))),
     object_id_valid = (\<lambda>v. True),
     to_locale_date = (\<lambda>v. lit ''Invalid Date''),
     number_text = (\<lambda>n. (49, lit ''e+21''))\<rparr>"

text \<open>
  The content API knows the tweets \<open>A\<close> and \<open>C\<close> and no other, the generative
  service is unreachable, and the store accepts every document.
\<close>

definition env_batch :: env where
  "env_batch = \<lparr>
     generateContent = (\<lambda>tr p. Inl (new_Error (lit ''fetch failed''))),
     json_parse = (\<lambda>s. Inl (new_Error (lit ''Unexpected end of JSON input''))),
     date_now = (\<lambda>tr. 1700000000000),
     http_fetch = (\<lambda>tr url.
        Inr \<lparr>resp_ok = True, resp_status = 200,
             resp_json = Inr (JObj [(lit ''status'', JStr (lit ''success'')),
                                    (lit ''tweets'',
                                       if url = url_of_id ''A'' then JArr [sample_tweet ''A'']
                                       else if url = url_of_id ''C'' then JArr [sample_tweet ''C'']
                                       else JArr [])])\<rparr>),
     article_save = (\<lambda>tr doc. Inr doc),
     find_by_id_and_update = (\<lambda>tr i d. Inr d),
     object_id_valid = (\<lambda>v. True),
     to_locale_date = (\<lambda>v. lit ''November 2, 2026''),
     number_text = (\<lambda>n. (49, lit ''e+21''))\<rparr>"

text \<open>As before, but the store holds the slug or the tweet id already.\<close>

definition env_dup :: env where
  "env_dup = env_batch
     \<lparr>article_save := (\<lambda>tr doc. Inl duplicate_key),
      find_by_id_and_update := (\<lambda>tr i d. Inl duplicate_key)\<rparr>"

text \<open>
  As \<open>env_batch\<close>, but the store is empty at first and keeps its articles unique:
  it accepts the first document and refuses every later one as a duplicate.
\<close>

fun saved_before :: "event list \<Rightarrow> bool" where
  "saved_before [] = False"
| "saved_before (EvSave doc # evs) = True"
| "saved_before (e # evs) = saved_before evs"

definition env_unique :: env where
  "env_unique = env_batch
     \<lparr>article_save := (\<lambda>tr doc. if saved_before tr then Inl duplicate_key else Inr doc)\<rparr>"

text \<open>
  As \<open>env_batch\<close>, and the feed of the author \<open>news\<close> holds the tweets \<open>A\<close> and
  \<open>C\<close>.
\<close>

definition env_author :: env where
  "env_author = env_batch
     \<lparr>http_fetch := (\<lambda>tr url.
        if url = url_of_user ''news''
        then Inr \<lparr>resp_ok = True, resp_status = 200,
                  resp_json = Inr (JObj [(lit ''status'', JStr (lit ''success'')),
                                         (lit ''tweets'', JArr [sample_tweet ''A'', sample_tweet ''C''])])\<rparr>
        else http_fetch env_batch tr url)\<rparr>"

text \<open>The tweet \<open>A\<close> was attempted one hour before the clock of the sample environments.\<close>

definition cache_hour_ago :: cache where
  "cache_hour_ago = [(JStr (lit ''A''), 1699996400000)]"

text \<open>The content API answers with an empty JSON object.\<close>

definition env_empty_payload :: env where
  "env_empty_payload = \<lparr>
     generateContent = (\<lambda>tr p. Inl (new_Error (lit ''fetch failed''))),
     json_parse = (\<lambda>s. Inl (new_Error (lit ''Unexpected end of JSON input''))),
     date_now = (\<lambda>tr. 1700000000000),
     http_fetch = (\<lambda>tr url. Inr \<lparr>resp_ok = True, resp_status = 200, resp_json = Inr (JObj [])\<rparr>),
     article_save = (\<lambda>tr doc. Inr doc),
     find_by_id_and_update = (\<lambda>tr i d. Inr JNull),
     object_id_valid = (\<lambda>v. True),
     to_locale_date = (\<lambda>v. lit ''Invalid Date''),
     number_text = (\<lambda>n. (49, lit ''e+21''))\<rparr>"

section \<open>Basic facts\<close>

lemma dec_nonempty: "dec n \<noteq> []"
  by (subst dec.simps) simp

lemma lit_eq_iff: "lit a = lit b \<longleftrightarrow> a = b"
  unfolding lit_def by (simp add: inj_on_def)

lemma lit_Nil_iff: "lit a = [] \<longleftrightarrow> a = []"
  by (simp add: lit_def)

lemma bind_err_Inl:
  "bind_err m f = Inl e \<Longrightarrow> m = Inl e \<or> (\<exists>x. m = Inr x \<and> f x = Inl e)"
  by (cases m) (simp_all add: bind_err_def)

lemma bind_err_Inr:
  "bind_err m f = Inr y \<Longrightarrow> \<exists>x. m = Inr x \<and> f x = Inr y"
  by (cases m) (simp_all add: bind_err_def)

lemma bind_err_simps:
  "bind_err (Inl e) f = Inl e"
  "bind_err (Inr x) f = f x"
  by (simp_all add: bind_err_def)

lemma num_string_nonempty: "num_string nt n \<noteq> []"
  by (simp add: num_string_def dec_nonempty)

lemma interp_num_nonempty: "interp_num ev n \<noteq> []"
  by (simp add: interp_num_def num_string_nonempty)

lemma interp_simps:
  "interp ev (JStr s) = Inr s"
  "interp ev JUndefined = Inr (lit ''undefined'')"
  "interp ev JNull = Inr (lit ''null'')"
  "interp ev (JNum n) = Inr (interp_num ev n)"
  "interp ev (JBool b) = Inr (if b then lit ''true'' else lit ''false'')"
  "interp ev (JArr []) = Inr []"
  by (simp_all add: interp_def interp_num_def bind_err_def)

lemma interp_odd:
  "interp ev (JObj ((lit ''toString'', v) # kvs)) = Inl no_primitive"
  "interp ev odd_id = Inl no_primitive"
  by (simp_all add: interp_def no_primitive_def odd_id_def)

lemma printable_iff: "printable ev v \<longleftrightarrow> (\<exists>s. interp ev v = Inr s)"
  by (cases "interp ev v") (simp_all add: printable_def)

lemma printable_simps:
  "printable ev (JStr s)" "printable ev JUndefined" "printable ev JNull"
  "printable ev (JNum n)" "printable ev (JBool b)"
  by (simp_all add: printable_iff interp_simps)

lemma by_value_printable: "by_value k \<Longrightarrow> printable ev k"
  by (cases k) (simp_all add: by_value_def printable_simps)

lemma six_record_fields:
  "opt_prop (JObj [(lit ''title'', a), (lit ''summary'', b), (lit ''slug'', c),
      (lit ''tags'', d), (lit ''slug_te'', e), (lit ''tags_te'', f)]) ''title'' = a"
  "opt_prop (JObj [(lit ''title'', a), (lit ''summary'', b), (lit ''slug'', c),
      (lit ''tags'', d), (lit ''slug_te'', e), (lit ''tags_te'', f)]) ''summary'' = b"
  "opt_prop (JObj [(lit ''title'', a), (lit ''summary'', b), (lit ''slug'', c),
      (lit ''tags'', d), (lit ''slug_te'', e), (lit ''tags_te'', f)]) ''slug'' = c"
  "opt_prop (JObj [(lit ''title'', a), (lit ''summary'', b), (lit ''slug'', c),
      (lit ''tags'', d), (lit ''slug_te'', e), (lit ''tags_te'', f)]) ''tags'' = d"
  "opt_prop (JObj [(lit ''title'', a), (lit ''summary'', b), (lit ''slug'', c),
      (lit ''tags'', d), (lit ''slug_te'', e), (lit ''tags_te'', f)]) ''slug_te'' = e"
  "opt_prop (JObj [(lit ''title'', a), (lit ''summary'', b), (lit ''slug'', c),
      (lit ''tags'', d), (lit ''slug_te'', e), (lit ''tags_te'', f)]) ''tags_te'' = f"
  by (simp_all add: opt_prop_def lit_eq_iff)

lemma env_down_sel:
  "generateContent env_down tr p = Inl (new_Error (lit ''fetch failed''))"
  "date_now env_down tr = 1700000000000"
  "http_fetch env_down tr url = Inl (new_Error (lit ''fetch failed''))"
  "article_save env_down tr doc = Inl (new_Error (lit ''buffering timed out''))"
  by (simp_all add: env_down_def)

lemma dec_now: "dec 1700000000000 = lit ''1700000000000''"
  by (simp add: dec.simps lit_def)

lemma interp_num_now: "interp_num ev 1700000000000 = lit ''1700000000000''"
  by (simp add: interp_num_def num_string_def dec_now)

lemma tweet_try_down_v1: "tweet_try_v1 env_down t tr = (Inl (new_Error (lit ''fetch failed'')), tr @ [EvGenerate (TweetPrompt t)])"
  by (simp add: tweet_try_v1_def env_down_sel)

lemma tweet_try_down_v2: "tweet_try_v2 env_down t tr = (Inl (new_Error (lit ''fetch failed'')), tr @ [EvGenerate (TweetPrompt t)])"
  by (simp add: tweet_try_v2_def env_down_sel)


section \<open>The tweet formatter always answers\<close>

lemma tweet_fallback_v1_str:
  "tweet_fallback_v1 ev (JStr text) tr =
     (Inr (JObj
        [(lit ''title'', JStr (take 50 text)),
         (lit ''summary'', JStr text),
         (lit ''slug'', JStr (lit ''fallback-'' @ interp_num ev (date_now ev tr))),
         (lit ''tags'', JArr [JStr (lit ''news'')]),
         (lit ''slug_te'', JStr (lit ''fallback-te-'' @ interp_num ev (date_now ev (tr @ [EvNow])))),
         (lit ''tags_te'', JArr [JStr telugu_news])]),
      tr @ [EvNow, EvNow])"
  by (simp add: tweet_fallback_v1_def)

lemma tweet_fallback_v2_str:
  "tweet_fallback_v2 ev (JStr text) tr =
     (Inr (JObj
        [(lit ''title'', JStr (take 60 text)),
         (lit ''summary'', JStr text),
         (lit ''slug'', JStr (take 60 text @ interp_num ev (date_now ev tr))),
         (lit ''tags'', JArr [JStr (lit ''news'')]),
         (lit ''slug_te'', JStr (lit ''fallback-te-'' @ interp_num ev (date_now ev (tr @ [EvNow])))),
         (lit ''tags_te'', JArr [JStr telugu_news])]),
      tr @ [EvNow, EvNow])"
  by (simp add: tweet_fallback_v2_def interp_simps)

lemma some_falsy_six:
  "some_falsy v six_keys = Inr False \<Longrightarrow> six_truthy v"
  by (auto simp: six_keys_def six_truthy_def opt_prop_def split: sum.splits if_splits)

lemma read_reply_v1_six:
  "read_reply_v1 ev result six_keys m = Inr v \<Longrightarrow> six_truthy v"
  by (auto simp: read_reply_v1_def some_falsy_six split: sum.splits if_splits jsval.splits bool.splits)

lemma tweet_try_v1_six:
  "fst (tweet_try_v1 ev text tr) = Inr v \<Longrightarrow> six_truthy v"
  by (auto simp: tweet_try_v1_def read_reply_v1_six split: sum.splits)

lemma fallback_v1_fields:
  assumes "tweet_try_v1 ev (JStr text) tr = (Inl e, tr1)"
  shows "\<exists>v tr'. formatTweetWithGemini_v1 ev (JStr text) tr = (Inr v, tr') \<and>
          opt_prop v ''title'' = JStr (take 50 text) \<and>
          opt_prop v ''summary'' = JStr text \<and>
          nonempty (opt_prop v ''slug'') \<and> nonempty (opt_prop v ''tags'') \<and>
          nonempty (opt_prop v ''slug_te'') \<and> nonempty (opt_prop v ''tags_te'') \<and>
          (six_nonempty v \<longleftrightarrow> text \<noteq> [])"
  using assms
  by (simp add: formatTweetWithGemini_v1_def tweet_fallback_v1_str six_record_fields
        nonempty_def six_nonempty_def six_keys_def telugu_news_def interp_num_nonempty interp_simps)

lemma fallback_v2_fields:
  assumes "tweet_try_v2 ev (JStr text) tr = (Inl e, tr1)"
  shows "\<exists>v tr'. formatTweetWithGemini_v2 ev (JStr text) tr = (Inr v, tr') \<and>
          opt_prop v ''title'' = JStr (take 60 text) \<and>
          opt_prop v ''summary'' = JStr text \<and>
          nonempty (opt_prop v ''slug'') \<and> nonempty (opt_prop v ''tags'') \<and>
          nonempty (opt_prop v ''slug_te'') \<and> nonempty (opt_prop v ''tags_te'') \<and>
          (six_nonempty v \<longleftrightarrow> text \<noteq> [])"
  using assms
  by (simp add: formatTweetWithGemini_v2_def tweet_fallback_v2_str six_record_fields
        nonempty_def six_nonempty_def six_keys_def telugu_news_def interp_num_nonempty interp_simps)

text \<open>
  A text that is not a string is another matter: with the service down, the
  fallback's \<open>text.slice\<close> throws for a tweet without text, and the exception
  leaves the formatter (\<open>processTweetId\<close> catches it).
\<close>

lemma formatTweetWithGemini_undefined_text:
  "formatTweetWithGemini_v1 env_down JUndefined [] =
     (Inl (cannot_read JUndefined ''slice''), [EvGenerate (TweetPrompt JUndefined)])"
  "formatTweetWithGemini_v2 env_down JUndefined [] =
     (Inl (cannot_read JUndefined ''slice''), [EvGenerate (TweetPrompt JUndefined)])"
  by (simp_all add: formatTweetWithGemini_v1_def formatTweetWithGemini_v2_def tweet_try_down_v1
        tweet_try_down_v2 tweet_fallback_v1_def tweet_fallback_v2_def interp_simps)

text \<open>
  Claim C1, as amended. For every input text and whatever the generative service
  does, \<open>formatTweetWithGemini\<close> gives a record and no exception. In the first
  server file the record is the service's parsed reply, with all six fields
  present and truthy, or the fallback; in both files the fallback has a non-empty
  \<open>slug\<close>, \<open>tags\<close>, \<open>slug_te\<close> and \<open>tags_te\<close>, its \<open>title\<close> is the first 50 (60 in
  the second file) code units of the text and its \<open>summary\<close> is the text, so its
  six fields are all non-empty exactly when the text is not empty. The second
  file returns the parsed reply as it is.
\<close>

theorem formatTweetWithGemini_total:
  "(\<exists>v tr'. formatTweetWithGemini_v1 ev (JStr text) tr = (Inr v, tr') \<and>
      (case fst (tweet_try_v1 ev (JStr text) tr) of
         Inr parsedData \<Rightarrow> v = parsedData \<and> six_truthy v
       | Inl e \<Rightarrow>
           opt_prop v ''title'' = JStr (take 50 text) \<and>
           opt_prop v ''summary'' = JStr text \<and>
           nonempty (opt_prop v ''slug'') \<and> nonempty (opt_prop v ''tags'') \<and>
           nonempty (opt_prop v ''slug_te'') \<and> nonempty (opt_prop v ''tags_te'') \<and>
           (six_nonempty v \<longleftrightarrow> text \<noteq> []))) \<and>
   (\<exists>v tr'. formatTweetWithGemini_v2 ev (JStr text) tr = (Inr v, tr') \<and>
      (case fst (tweet_try_v2 ev (JStr text) tr) of
         Inr parsed \<Rightarrow> v = parsed
       | Inl e \<Rightarrow>
           opt_prop v ''title'' = JStr (take 60 text) \<and>
           opt_prop v ''summary'' = JStr text \<and>
           nonempty (opt_prop v ''slug'') \<and> nonempty (opt_prop v ''tags'') \<and>
           nonempty (opt_prop v ''slug_te'') \<and> nonempty (opt_prop v ''tags_te'') \<and>
           (six_nonempty v \<longleftrightarrow> text \<noteq> [])))"
proof
  show "\<exists>v tr'. formatTweetWithGemini_v1 ev (JStr text) tr = (Inr v, tr') \<and>
      (case fst (tweet_try_v1 ev (JStr text) tr) of
         Inr parsedData \<Rightarrow> v = parsedData \<and> six_truthy v
       | Inl e \<Rightarrow>
           opt_prop v ''title'' = JStr (take 50 text) \<and>
           opt_prop v ''summary'' = JStr text \<and>
           nonempty (opt_prop v ''slug'') \<and> nonempty (opt_prop v ''tags'') \<and>
           nonempty (opt_prop v ''slug_te'') \<and> nonempty (opt_prop v ''tags_te'') \<and>
           (six_nonempty v \<longleftrightarrow> text \<noteq> []))"
  proof (cases "tweet_try_v1 ev (JStr text) tr")
    case (Pair r tr1)
    show ?thesis
    proof (cases r)
      case (Inr parsedData)
      with Pair have "six_truthy parsedData"
        using tweet_try_v1_six [of ev "JStr text" tr parsedData] by simp
      with Pair Inr show ?thesis
        by (simp add: formatTweetWithGemini_v1_def interp_simps)
    next
      case (Inl e)
      with Pair fallback_v1_fields [of ev "text" tr e tr1] show ?thesis
        by simp
    qed
  qed
next
  show "\<exists>v tr'. formatTweetWithGemini_v2 ev (JStr text) tr = (Inr v, tr') \<and>
      (case fst (tweet_try_v2 ev (JStr text) tr) of
         Inr parsed \<Rightarrow> v = parsed
       | Inl e \<Rightarrow>
           opt_prop v ''title'' = JStr (take 60 text) \<and>
           opt_prop v ''summary'' = JStr text \<and>
           nonempty (opt_prop v ''slug'') \<and> nonempty (opt_prop v ''tags'') \<and>
           nonempty (opt_prop v ''slug_te'') \<and> nonempty (opt_prop v ''tags_te'') \<and>
           (six_nonempty v \<longleftrightarrow> text \<noteq> []))"
  proof (cases "tweet_try_v2 ev (JStr text) tr")
    case (Pair r tr1)
    show ?thesis
    proof (cases r)
      case (Inr parsed)
      with Pair show ?thesis
        by (simp add: formatTweetWithGemini_v2_def interp_simps)
    next
      case (Inl e)
      with Pair fallback_v2_fields [of ev "text" tr e tr1] show ?thesis
        by simp
    qed
  qed
qed

text \<open>The service is down and the text is \<open>Heavy rain\<close>: the fallback is complete in both files.\<close>

theorem formatTweetWithGemini_total_witness:
  "(\<exists>v tr'. formatTweetWithGemini_v1 env_down (JStr (lit ''Heavy rain'')) [] = (Inr v, tr') \<and>
      opt_prop v ''title'' = JStr (lit ''Heavy rain'') \<and> six_nonempty v) \<and>
   (\<exists>v tr'. formatTweetWithGemini_v2 env_down (JStr (lit ''Heavy rain'')) [] = (Inr v, tr') \<and>
      opt_prop v ''title'' = JStr (lit ''Heavy rain'') \<and> six_nonempty v)"
  using formatTweetWithGemini_total [of env_down "lit ''Heavy rain''" "[]"]
  by (auto simp: tweet_try_down_v1 tweet_try_down_v2 lit_def)

text \<open>
  Claim C1 as stated fails at the empty text: with the service down, the record
  has an empty \<open>title\<close> and an empty \<open>summary\<close>.
\<close>

theorem formatTweetWithGemini_empty_text:
  "fst (formatTweetWithGemini_v1 env_down (JStr []) []) =
     Inr (JObj [(lit ''title'', JStr []),
                (lit ''summary'', JStr []),
                (lit ''slug'', JStr (lit ''fallback-1700000000000'')),
                (lit ''tags'', JArr [JStr (lit ''news'')]),
                (lit ''slug_te'', JStr (lit ''fallback-te-1700000000000'')),
                (lit ''tags_te'', JArr [JStr telugu_news])]) \<and>
   \<not> six_nonempty (JObj [(lit ''title'', JStr []),
                (lit ''summary'', JStr []),
                (lit ''slug'', JStr (lit ''fallback-1700000000000'')),
                (lit ''tags'', JArr [JStr (lit ''news'')]),
                (lit ''slug_te'', JStr (lit ''fallback-te-1700000000000'')),
                (lit ''tags_te'', JArr [JStr telugu_news])])"
  by (simp add: formatTweetWithGemini_v1_def tweet_try_down_v1 tweet_fallback_v1_def interp_simps
        six_nonempty_def six_keys_def nonempty_def opt_prop_def env_down_sel interp_num_now lit_def)

section \<open>The free-text formatter and its fallback\<close>

lemma described_new_Error: "err_message (new_Error m) = m"
  by (simp add: new_Error_def)

lemma read_reply_v1_two:
  "read_reply_v1 ev result [''title'', ''summary''] m = Inr v \<Longrightarrow>
     truthy (opt_prop v ''title'') \<and> truthy (opt_prop v ''summary'')"
  by (auto simp: read_reply_v1_def opt_prop_def
        split: sum.splits if_splits jsval.splits bool.splits)

lemma read_reply_v1_no_text:
  "\<not> truthy (opt_prop result ''text'') \<Longrightarrow>
     read_reply_v1 ev result keys m = Inl (new_Error (lit ''Gemini returned no text.''))"
  by (cases result) (auto simp: read_reply_v1_def opt_prop_def)

lemma read_reply_v1_no_string:
  "truthy (opt_prop result ''text'') \<Longrightarrow> \<forall>s. opt_prop result ''text'' \<noteq> JStr s \<Longrightarrow>
     read_reply_v1 ev result keys m = Inl (not_a_function ''result.text.trim'')"
  by (cases result; cases "opt_prop result ''text''")
     (auto simp: read_reply_v1_def opt_prop_def split: if_splits)

lemma read_reply_v1_string:
  "opt_prop result ''text'' = JStr s \<Longrightarrow> s \<noteq> [] \<Longrightarrow>
     read_reply_v1 ev result keys m =
       (case json_parse ev (clean_v1 s) of
          Inl e \<Rightarrow> Inl e
        | Inr parsedData \<Rightarrow>
            (case some_falsy parsedData keys of
               Inl e \<Rightarrow> Inl e
             | Inr True \<Rightarrow> Inl (new_Error m)
             | Inr False \<Rightarrow> Inr parsedData))"
  by (cases result) (auto simp: read_reply_v1_def opt_prop_def split: if_splits)

lemma some_falsy_two:
  "\<not> present v \<Longrightarrow> some_falsy v [''title'', ''summary''] = Inl (cannot_read v ''title'')"
  "present v \<Longrightarrow> \<not> truthy (opt_prop v ''title'') \<or> \<not> truthy (opt_prop v ''summary'') \<Longrightarrow>
     some_falsy v [''title'', ''summary''] = Inr True"
  "truthy (opt_prop v ''title'') \<Longrightarrow> truthy (opt_prop v ''summary'') \<Longrightarrow>
     some_falsy v [''title'', ''summary''] = Inr False"
  by (cases v; auto simp: present_def opt_prop_def)+

lemma read_reply_v2_absent:
  "\<not> present result \<Longrightarrow> read_reply_v2 ev result = Inl (cannot_read result ''text'')"
  by (cases result) (auto simp: read_reply_v2_def present_def)

lemma read_reply_v2_no_text:
  "present result \<Longrightarrow> \<not> present (opt_prop result ''text'') \<Longrightarrow>
     read_reply_v2 ev result = Inl (cannot_read (opt_prop result ''text'') ''replace'')"
  by (cases result; cases "opt_prop result ''text''")
     (auto simp: read_reply_v2_def present_def opt_prop_def)

lemma read_reply_v2_no_string:
  "present (opt_prop result ''text'') \<Longrightarrow> \<forall>s. opt_prop result ''text'' \<noteq> JStr s \<Longrightarrow>
     read_reply_v2 ev result = Inl (not_a_function ''result.text.replace'')"
  by (cases result; cases "opt_prop result ''text''")
     (auto simp: read_reply_v2_def present_def opt_prop_def)

lemma read_reply_v2_string:
  "opt_prop result ''text'' = JStr s \<Longrightarrow> read_reply_v2 ev result = json_parse ev (trim (delete_fences s))"
  by (cases result) (auto simp: read_reply_v2_def opt_prop_def)

lemma not_a_function_message:
  "err_message (not_a_function ''result.text.trim'') = lit ''result.text.trim is not a function''"
  "err_message (not_a_function ''result.text.replace'') = lit ''result.text.replace is not a function''"
  by (simp_all add: not_a_function_def new_Error_def lit_def)

lemma formatText_v1_printable:
  assumes "printable ev instruction" and "printable ev text"
  shows "formatTextWithGemini_v1 ev text instruction tr =
     (case generateContent ev tr (TextPrompt text instruction) of
        Inl e \<Rightarrow> Inr (error_record (lit ''Error in Processing'') (err_message e))
      | Inr result \<Rightarrow>
          (case read_reply_v1 ev result [''title'', ''summary'']
                  (lit ''Gemini returned incomplete JSON data (missing title or summary).'') of
             Inl e \<Rightarrow> Inr (error_record (lit ''Error in Processing'') (err_message e))
           | Inr parsedData \<Rightarrow> Inr parsedData),
      tr @ [EvGenerate (TextPrompt text instruction)])"
  using assms
  by (auto simp: formatTextWithGemini_v1_def text_try_v1_def printable_iff bind_err_def
        error_record_def split: sum.splits)

lemma formatText_v2_printable:
  assumes "printable ev instruction" and "printable ev text"
  shows "formatTextWithGemini_v2 ev text instruction tr =
     (case generateContent ev tr (TextPrompt text instruction) of
        Inl e \<Rightarrow> Inr (error_record (lit ''Error'') (err_message e))
      | Inr result \<Rightarrow>
          (case read_reply_v2 ev result of
             Inl e \<Rightarrow> Inr (error_record (lit ''Error'') (err_message e))
           | Inr parsed \<Rightarrow> Inr parsed),
      tr @ [EvGenerate (TextPrompt text instruction)])"
  using assms
  by (auto simp: formatTextWithGemini_v2_def text_try_v2_def printable_iff bind_err_def
        error_record_def split: sum.splits)

text \<open>
  Where the prompt cannot be built, nothing catches the exception: the helper of
  either file fails outward, before it has called the service.
\<close>

lemma formatText_unprintable:
  "formatTextWithGemini_v1 ev (JStr s) odd_id tr = (Inl no_primitive, tr)"
  "formatTextWithGemini_v2 ev (JStr s) odd_id tr = (Inl no_primitive, tr)"
  "formatTextWithGemini_v1 ev odd_id (JStr s) tr = (Inl no_primitive, tr)"
  "formatTextWithGemini_v2 ev odd_id (JStr s) tr = (Inl no_primitive, tr)"
  by (simp_all add: formatTextWithGemini_v1_def formatTextWithGemini_v2_def interp_odd interp_simps
        bind_err_simps)

text \<open>
  Claim C8, as amended. For a text and an instruction of which the prompt can be
  built (each converts to a string), \<open>formatTextWithGemini\<close> has no exception to
  give, and after every fault of the call or of the reading of its reply the
  result is the fallback record whose \<open>summary\<close> is the fault's message and
  whose \<open>title\<close> is \<open>Error in Processing\<close> in the first server file and \<open>Error\<close>
  in the second. The faults are, in both files: the service call fails; the
  reply's text is not a string; the text does not parse. In the first file
  also: the reply or its text is falsy (\<open>Gemini returned no text.\<close>); the parsed
  value is \<open>null\<close>; it lacks a truthy title or summary. In the second file also:
  the reply is \<open>undefined\<close> or \<open>null\<close>; its text is. In every other case the
  result is the parsed reply: in the first file one with a truthy title and
  summary, in the second whatever the text parses to.
\<close>

theorem formatTextWithGemini_fallback:
  assumes "printable ev instruction" and "printable ev text"
    and "p = TextPrompt text instruction" and "tr1 = tr @ [EvGenerate p]"
    and "v1 = formatTextWithGemini_v1 ev text instruction tr"
    and "v2 = formatTextWithGemini_v2 ev text instruction tr"
  shows "(\<forall>e. generateContent ev tr p = Inl e \<longrightarrow>
       v1 = (Inr (error_record (lit ''Error in Processing'') (err_message e)), tr1) \<and>
       v2 = (Inr (error_record (lit ''Error'') (err_message e)), tr1)) \<and>
   (\<forall>result. generateContent ev tr p = Inr result \<longrightarrow>
      (\<not> truthy (opt_prop result ''text'') \<longrightarrow>
         v1 = (Inr (error_record (lit ''Error in Processing'') (lit ''Gemini returned no text.'')), tr1)) \<and>
      (\<not> present result \<longrightarrow>
         v2 = (Inr (error_record (lit ''Error'') (err_message (cannot_read result ''text''))), tr1)) \<and>
      (present result \<longrightarrow> \<not> present (opt_prop result ''text'') \<longrightarrow>
         v2 = (Inr (error_record (lit ''Error'')
                 (err_message (cannot_read (opt_prop result ''text'') ''replace''))), tr1)) \<and>
      ((\<forall>s. opt_prop result ''text'' \<noteq> JStr s) \<longrightarrow>
         (truthy (opt_prop result ''text'') \<longrightarrow>
            v1 = (Inr (error_record (lit ''Error in Processing'')
                    (lit ''result.text.trim is not a function'')), tr1)) \<and>
         (present (opt_prop result ''text'') \<longrightarrow>
            v2 = (Inr (error_record (lit ''Error'')
                    (lit ''result.text.replace is not a function'')), tr1))) \<and>
      (\<forall>s. opt_prop result ''text'' = JStr s \<longrightarrow>
         (\<forall>e. json_parse ev (trim (delete_fences s)) = Inl e \<longrightarrow>
            v2 = (Inr (error_record (lit ''Error'') (err_message e)), tr1)) \<and>
         (\<forall>parsed. json_parse ev (trim (delete_fences s)) = Inr parsed \<longrightarrow> v2 = (Inr parsed, tr1)) \<and>
         (s \<noteq> [] \<longrightarrow>
            (\<forall>e. json_parse ev (clean_v1 s) = Inl e \<longrightarrow>
               v1 = (Inr (error_record (lit ''Error in Processing'') (err_message e)), tr1)) \<and>
            (\<forall>parsedData. json_parse ev (clean_v1 s) = Inr parsedData \<longrightarrow>
               (\<not> present parsedData \<longrightarrow>
                  v1 = (Inr (error_record (lit ''Error in Processing'')
                          (err_message (cannot_read parsedData ''title''))), tr1)) \<and>
               (present parsedData \<longrightarrow>
                  \<not> truthy (opt_prop parsedData ''title'') \<or> \<not> truthy (opt_prop parsedData ''summary'') \<longrightarrow>
                  v1 = (Inr (error_record (lit ''Error in Processing'')
                          (lit ''Gemini returned incomplete JSON data (missing title or summary).'')), tr1)) \<and>
               (truthy (opt_prop parsedData ''title'') \<longrightarrow> truthy (opt_prop parsedData ''summary'') \<longrightarrow>
                  v1 = (Inr parsedData, tr1))))))"
proof -
  note f1 = formatText_v1_printable [OF assms(1,2), of tr, folded assms(3)]
  note f2 = formatText_v2_printable [OF assms(1,2), of tr, folded assms(3)]
  show ?thesis
    unfolding assms(5,6) f1 f2 assms(4)
    by (auto simp: read_reply_v1_no_text read_reply_v1_no_string read_reply_v1_string
          read_reply_v2_absent read_reply_v2_no_text read_reply_v2_no_string read_reply_v2_string
          some_falsy_two not_a_function_message described_new_Error
          simp del: some_falsy.simps)
qed

text \<open>The service is down: both files give their fallback with the service's message.\<close>

theorem formatTextWithGemini_fallback_witness:
  "formatTextWithGemini_v1 env_down (JStr (lit ''Heavy rain'')) (JStr (lit ''translate english to telugu'')) [] =
     (Inr (error_record (lit ''Error in Processing'') (lit ''fetch failed'')),
      [EvGenerate (TextPrompt (JStr (lit ''Heavy rain'')) (JStr (lit ''translate english to telugu'')))]) \<and>
   formatTextWithGemini_v2 env_down (JStr (lit ''Heavy rain'')) (JStr (lit ''translate english to telugu'')) [] =
     (Inr (error_record (lit ''Error'') (lit ''fetch failed'')),
      [EvGenerate (TextPrompt (JStr (lit ''Heavy rain'')) (JStr (lit ''translate english to telugu'')))])"
  using formatTextWithGemini_fallback [of env_down "JStr (lit ''translate english to telugu'')"
      "JStr (lit ''Heavy rain'')" _ _ "[]", OF printable_simps(1) printable_simps(1) refl refl refl refl]
  by (simp add: env_down_sel new_Error_def)

text \<open>
  Claim C8 as stated fails in the second server file: the title of its fallback
  is \<open>Error\<close>, not \<open>Error in Processing\<close>.
\<close>

theorem formatTextWithGemini_v2_title:
  "fst (formatTextWithGemini_v2 env_down (JStr (lit ''Heavy rain'')) (JStr (lit ''translate english to telugu'')) []) =
     Inr (error_record (lit ''Error'') (lit ''fetch failed'')) \<and>
   error_record (lit ''Error'') (lit ''fetch failed'') \<noteq>
     error_record (lit ''Error in Processing'') (lit ''fetch failed'')"
  by (simp add: formatTextWithGemini_v2_def text_try_v2_def env_down_sel interp_simps bind_err_simps
        error_record_def new_Error_def lit_eq_iff)

section \<open>One tweet: what the catch block catches\<close>

lemma described_cannot_read: "err_message (cannot_read v name) \<noteq> []"
  by (simp add: cannot_read_def new_Error_def lit_def)

lemma described_not_a_function: "err_message (not_a_function expr) \<noteq> []"
  by (simp add: not_a_function_def new_Error_def lit_def)

lemma described_no_primitive: "err_message no_primitive = lit ''Cannot convert object to primitive value''"
  by (simp add: no_primitive_def new_Error_def)

lemma get_prop_described: "get_prop v name = Inl e \<Longrightarrow> err_message e \<noteq> []"
  by (cases v) (auto simp: described_cannot_read)

lemma get_index_described: "get_index v i name = Inl e \<Longrightarrow> err_message e \<noteq> []"
  by (cases v) (auto simp: described_cannot_read)

lemma js_slice_described: "js_slice v n expr = Inl e \<Longrightarrow> err_message e \<noteq> []"
  by (cases v) (auto simp: described_cannot_read described_not_a_function)

lemma sequence_err_Inl: "sequence_err rs = Inl e \<Longrightarrow> Inl e \<in> set rs"
  by (induction rs rule: sequence_err.induct) (auto split: sum.splits)

text \<open>The one exception of a conversion to a string.\<close>

lemma to_string_Inl: "to_string nt v = Inl e \<Longrightarrow> e = no_primitive"
proof (induction nt v rule: to_string.induct)
  case (6 nt xs)
  from "6.prems" have "sequence_err (map (\<lambda>v. if v = JUndefined \<or> v = JNull then Inr [] else to_string nt v) xs) = Inl e"
    by (auto simp: bind_err_def split: sum.splits)
  then have "Inl e \<in> set (map (\<lambda>v. if v = JUndefined \<or> v = JNull then Inr [] else to_string nt v) xs)"
    by (rule sequence_err_Inl)
  then obtain x where "x \<in> set xs" "to_string nt x = Inl e"
    by (auto split: if_splits)
  moreover from this have "\<not> (x = JUndefined \<or> x = JNull)" by auto
  ultimately show ?case using "6.IH" by blast
qed (simp_all add: no_primitive_def split: if_splits)

lemma interp_Inl: "interp ev v = Inl e \<Longrightarrow> e = no_primitive"
  by (simp add: interp_def to_string_Inl)

lemma interp_described: "interp ev v = Inl e \<Longrightarrow> err_message e \<noteq> []"
  by (auto dest!: interp_Inl simp: described_no_primitive lit_Nil_iff)

lemma interp_unprintable: "\<not> printable ev v \<Longrightarrow> interp ev v = Inl no_primitive"
  by (cases "interp ev v") (auto simp: printable_def dest: interp_Inl)

lemma tweets_url_printable:
  "printable ev i \<Longrightarrow> \<exists>s. interp ev i = Inr s \<and>
     tweets_url ev i = Inr (lit ''https://api.twitterapi.io/twitter/tweets?tweet_ids='' @ s)"
  by (auto simp: printable_iff tweets_url_def bind_err_simps)

lemma tweets_url_unprintable: "\<not> printable ev i \<Longrightarrow> tweets_url ev i = Inl no_primitive"
  by (simp add: tweets_url_def interp_unprintable bind_err_simps)

lemma tweets_url_lit: "tweets_url ev (JStr (lit i)) = Inr (url_of_id i)"
  by (simp add: tweets_url_def interp_simps bind_err_simps url_of_id_def)

lemma pick_tweet_v1_described:
  assumes "pick_tweet_v1 ev r = Inl e" and "\<And>e'. resp_json r = Inl e' \<Longrightarrow> err_message e' \<noteq> []"
  shows "err_message e \<noteq> []"
  using assms
  by (auto simp: pick_tweet_v1_def bind_err_def described_new_Error lit_Nil_iff
        dest: get_prop_described get_index_described
        split: if_splits sum.splits)

lemma pick_tweet_v2_described:
  assumes "pick_tweet_v2 r = Inl e" and "\<And>e'. resp_json r = Inl e' \<Longrightarrow> err_message e' \<noteq> []"
  shows "err_message e \<noteq> []"
  using assms
  by (auto simp: pick_tweet_v2_def bind_err_def described_new_Error lit_Nil_iff
        split: if_splits sum.splits)

lemma formatTweet_v1_described:
  "formatTweetWithGemini_v1 ev text tr = (Inl e, tr') \<Longrightarrow> err_message e \<noteq> []"
  by (auto simp: formatTweetWithGemini_v1_def tweet_fallback_v1_def
        dest: js_slice_described interp_described split: prod.splits sum.splits)

lemma formatTweet_v2_described:
  "formatTweetWithGemini_v2 ev text tr = (Inl e, tr') \<Longrightarrow> err_message e \<noteq> []"
  by (auto simp: formatTweetWithGemini_v2_def tweet_fallback_v2_def
        dest: js_slice_described interp_described split: prod.splits sum.splits)

lemma twitterEmbed_v1_described:
  "twitterEmbed_v1 ev tweet d = Inl e \<Longrightarrow> err_message e \<noteq> []"
  unfolding twitterEmbed_v1_def
  by (auto dest!: bind_err_Inl dest: get_prop_described interp_described)

lemma twitterEmbed_v2_described:
  "twitterEmbed_v2 ev tweet = Inl e \<Longrightarrow> err_message e \<noteq> []"
  unfolding twitterEmbed_v2_def
  by (auto dest!: bind_err_Inl dest: get_prop_described interp_described)

lemma newArticle_v1_described:
  "newArticle_v1 ev tweet g now = Inl e \<Longrightarrow> err_message e \<noteq> []"
  unfolding newArticle_v1_def
  by (auto dest!: bind_err_Inl dest: get_prop_described interp_described twitterEmbed_v1_described
        split: if_splits)

lemma newArticle_v2_described:
  "newArticle_v2 ev tweet g now = Inl e \<Longrightarrow> err_message e \<noteq> []"
  unfolding newArticle_v2_def
  by (auto dest!: bind_err_Inl dest: get_prop_described twitterEmbed_v2_described)

lemma fetch_pick_v1_described:
  assumes "errors_described ev" and "bind_err (http_fetch ev tr url) (pick_tweet_v1 ev) = Inl e"
  shows "err_message e \<noteq> []"
proof -
  from assms(2) consider "http_fetch ev tr url = Inl e"
    | r where "http_fetch ev tr url = Inr r" "pick_tweet_v1 ev r = Inl e"
    using bind_err_Inl by blast
  then show ?thesis
  proof cases
    case 1
    with assms(1) show ?thesis by (auto simp: errors_described_def)
  next
    case 2
    with assms(1) have "\<And>e'. resp_json r = Inl e' \<Longrightarrow> err_message e' \<noteq> []"
      by (auto simp: errors_described_def)
    with 2 show ?thesis using pick_tweet_v1_described by blast
  qed
qed

lemma fetch_pick_v2_described:
  assumes "errors_described ev" and "bind_err (http_fetch ev tr url) pick_tweet_v2 = Inl e"
  shows "err_message e \<noteq> []"
proof -
  from assms(2) consider "http_fetch ev tr url = Inl e"
    | r where "http_fetch ev tr url = Inr r" "pick_tweet_v2 r = Inl e"
    using bind_err_Inl by blast
  then show ?thesis
  proof cases
    case 1
    with assms(1) show ?thesis by (auto simp: errors_described_def)
  next
    case 2
    with assms(1) have "\<And>e'. resp_json r = Inl e' \<Longrightarrow> err_message e' \<noteq> []"
      by (auto simp: errors_described_def)
    with 2 show ?thesis using pick_tweet_v2_described by blast
  qed
qed

lemma try_v1_described:
  assumes "errors_described ev" and "processTweetId_try_v1 ev tweetId tr = (Inl e, tr')"
  shows "err_message e \<noteq> []"
proof -
  have save: "\<And>t doc e'. article_save ev t doc = Inl e' \<Longrightarrow> err_message e' \<noteq> []"
    using assms(1) by (auto simp: errors_described_def)
  have url: "\<And>e'. tweets_url ev tweetId = Inl e' \<Longrightarrow> err_message e' \<noteq> []"
    by (auto simp: tweets_url_def dest!: bind_err_Inl dest: interp_described)
  from assms(2) show ?thesis
    unfolding processTweetId_try_v1_def Let_def
    by (auto split: sum.splits prod.splits
          dest: fetch_pick_v1_described [OF assms(1)] get_prop_described
                formatTweet_v1_described newArticle_v1_described save url)
qed

lemma try_v2_described:
  assumes "errors_described ev" and "processTweetId_try_v2 ev tweetId tr = (Inl e, tr')"
  shows "err_message e \<noteq> []"
proof -
  have save: "\<And>t doc e'. article_save ev t doc = Inl e' \<Longrightarrow> err_message e' \<noteq> []"
    using assms(1) by (auto simp: errors_described_def)
  have url: "\<And>e'. tweets_url ev tweetId = Inl e' \<Longrightarrow> err_message e' \<noteq> []"
    by (auto simp: tweets_url_def dest!: bind_err_Inl dest: interp_described)
  from assms(2) show ?thesis
    unfolding processTweetId_try_v2_def Let_def
    by (auto split: sum.splits prod.splits
          dest: fetch_pick_v2_described [OF assms(1)] get_prop_described
                formatTweet_v2_described newArticle_v2_described save url)
qed

lemma env_down_described: "errors_described env_down"
  by (simp add: errors_described_def env_down_sel new_Error_def lit_Nil_iff)

text \<open>
  For an id that converts to a string the first file's \<open>processTweetId\<close> gives
  the success shape or the failure shape, as the second file's does for every
  id: the failure carries the id passed in and the message of the error caught.
\<close>

lemma processTweetId_v1_printable:
  "printable ev tweetId \<Longrightarrow>
     processTweetId_v1 ev tweetId tr =
       (case processTweetId_try_v1 ev tweetId tr of
          (Inr savedArticle, tr') \<Rightarrow> (Inr (Success savedArticle), tr')
        | (Inl e, tr') \<Rightarrow> (Inr (Failure tweetId (err_message e)), tr'))"
  by (auto simp: processTweetId_v1_def printable_iff split: prod.splits sum.splits)

lemma processTweetId_v1_unprintable:
  "\<not> printable ev tweetId \<Longrightarrow> processTweetId_v1 ev tweetId tr = (Inl no_primitive, tr)"
  by (simp add: processTweetId_v1_def processTweetId_try_v1_def tweets_url_unprintable
        interp_unprintable)

lemma processTweetId_v2_unprintable:
  "\<not> printable ev tweetId \<Longrightarrow>
     processTweetId_v2 ev tweetId tr =
       (Inr (Failure tweetId (lit ''Cannot convert object to primitive value'')), tr)"
  by (simp add: processTweetId_v2_def processTweetId_try_v2_def tweets_url_unprintable
        described_no_primitive)

lemma answers_v1: "printable ev i \<Longrightarrow> answers (processTweetId_v1 ev) i"
  by (auto simp: answers_def processTweetId_v1_printable split: prod.splits sum.splits)

lemma answers_v2: "answers (processTweetId_v2 ev) i"
  by (auto simp: answers_def processTweetId_v2_def split: prod.splits sum.splits)

lemma process_down:
  "processTweetId_v1 env_down (JStr (lit i)) tr =
     (Inr (Failure (JStr (lit i)) (lit ''fetch failed'')), tr @ [EvFetch (url_of_id i)])"
  "processTweetId_v2 env_down (JStr (lit i)) tr =
     (Inr (Failure (JStr (lit i)) (lit ''fetch failed'')), tr @ [EvFetch (url_of_id i)])"
  by (simp_all add: processTweetId_v1_def processTweetId_try_v1_def processTweetId_v2_def
        processTweetId_try_v2_def tweets_url_lit bind_err_simps env_down_sel
        described_new_Error interp_simps)

lemma not_printable_odd: "\<not> printable ev (JObj ((lit ''toString'', v) # kvs))"
  by (simp add: printable_def interp_odd)

text \<open>
  Claim C9 fails in the first server file. An id with a key \<open>toString\<close> of its
  own, as the JSON body \<open>{"tweet_ids": [{"toString": 1}]}\<close> holds, cannot be made
  a string: the template literal of the URL throws in the \<open>try\<close> block, the
  template literal of the log throws again in the \<open>catch\<close> block (line 265), and
  the exception leaves \<open>processTweetId\<close>, the loop over the ids and the handler
  of the POST endpoint, before anything was fetched. The second file's \<open>catch\<close>
  block has no such log: there the same id gives the failure shape with the
  TypeError's message as reason, and the endpoint answers 200.
\<close>

theorem processTweetId_v1_rejects:
  "processTweetId_v1 ev (JObj ((lit ''toString'', v) # kvs)) tr = (Inl no_primitive, tr) \<and>
   processTweetId_v2 ev (JObj ((lit ''toString'', v) # kvs)) tr =
     (Inr (Failure (JObj ((lit ''toString'', v) # kvs))
        (lit ''Cannot convert object to primitive value'')), tr) \<and>
   post_fetch_tweet_and_save_v1 ev (JObj [(lit ''tweet_ids'', JArr [JObj [(lit ''toString'', JNum 1)]])]) tr =
     (Inl no_primitive, tr) \<and>
   post_fetch_tweet_and_save_v2 ev (JObj [(lit ''tweet_ids'', JArr [JObj [(lit ''toString'', JNum 1)]])]) tr =
     (send 200 [(''success'', JArr []),
                (''failed'', JArr [JObj [(lit ''success'', JBool False),
                                         (lit ''id'', JObj [(lit ''toString'', JNum 1)]),
                                         (lit ''reason'', JStr (lit ''Cannot convert object to primitive value''))]])],
      tr)"
  by (simp add: processTweetId_v1_unprintable processTweetId_v2_unprintable not_printable_odd
        post_fetch_tweet_and_save_v1_def post_fetch_tweet_and_save_v2_def iterate_def failed_v2_def)

section \<open>The loop over the ids\<close>

lemma fetches_append: "fetches (a @ b) = fetches a @ fetches b"
  by (induction a rule: fetches.induct) simp_all

lemma urls_of_simps:
  "urls_of ev [] = []"
  "urls_of ev (i # ids) = urls_of ev [i] @ urls_of ev ids"
  by (simp_all add: urls_of_def)

lemma urls_of_lit: "urls_of ev (JStr (lit i) # ids) = url_of_id i # urls_of ev ids"
  by (simp add: urls_of_def tweets_url_lit)

lemma formatTweet_v1_fetches:
  "formatTweetWithGemini_v1 ev text tr = (r, tr') \<Longrightarrow> fetches tr' = fetches tr"
  by (auto simp: formatTweetWithGemini_v1_def tweet_try_v1_def tweet_fallback_v1_def fetches_append
        split: prod.splits sum.splits)

lemma formatTweet_v2_fetches:
  "formatTweetWithGemini_v2 ev text tr = (r, tr') \<Longrightarrow> fetches tr' = fetches tr"
  by (auto simp: formatTweetWithGemini_v2_def tweet_try_v2_def tweet_fallback_v2_def fetches_append
        split: prod.splits sum.splits)

lemma try_v1_fetches:
  "processTweetId_try_v1 ev tweetId tr = (r, tr') \<Longrightarrow> fetches tr' = fetches tr @ urls_of ev [tweetId]"
  unfolding processTweetId_try_v1_def Let_def urls_of_def
  by (auto simp: fetches_append split: sum.splits prod.splits dest!: formatTweet_v1_fetches)

lemma try_v2_fetches:
  "processTweetId_try_v2 ev tweetId tr = (r, tr') \<Longrightarrow> fetches tr' = fetches tr @ urls_of ev [tweetId]"
  unfolding processTweetId_try_v2_def Let_def urls_of_def
  by (auto simp: fetches_append split: sum.splits prod.splits dest!: formatTweet_v2_fetches)

lemma one_attempt_v1: "one_attempt ev (processTweetId_v1 ev)"
  unfolding one_attempt_def
  by (auto simp: processTweetId_v1_def split: prod.splits sum.splits
        dest: try_v1_fetches try_v1_described)

lemma one_attempt_v2: "one_attempt ev (processTweetId_v2 ev)"
  unfolding one_attempt_def
  by (auto simp: processTweetId_v2_def split: prod.splits sum.splits
        dest: try_v2_fetches try_v2_described)

text \<open>The loop ends with its two lists when \<open>processTweetId\<close> answers on every id.\<close>

lemma processIds_answers:
  "list_all (answers proc) ids \<Longrightarrow> \<exists>s' f' tr'. processIds proc ids s f tr = (Inr (s', f'), tr')"
proof (induction ids arbitrary: s f tr)
  case Nil
  then show ?case by simp
next
  case (Cons i ids)
  from Cons.prems have "answers proc i" by simp
  then obtain out t1 where p: "proc i tr = (Inr out, t1)"
    unfolding answers_def by blast
  from Cons have rest: "list_all (answers proc) ids" by simp
  show ?case
    using Cons.IH [OF rest] p by (cases out) simp_all
qed

lemma processIds_general:
  assumes "one_attempt ev proc"
  shows "processIds proc ids s f tr = (Inr (s', f'), tr') \<Longrightarrow>
     \<exists>oks. length oks = length ids \<and>
        length s' = length s + length (filter (\<lambda>b. b) oks) \<and>
        map fst f' = map fst f @ map fst (filter (\<lambda>p. \<not> snd p) (zip ids oks)) \<and>
        fetches tr' = fetches tr @ urls_of ev ids \<and>
        (errors_described ev \<longrightarrow> (\<forall>x \<in> set f'. x \<in> set f \<or> snd x \<noteq> []))"
proof (induction ids arbitrary: s f tr)
  case Nil
  then show ?case by (auto simp: urls_of_simps(1))
next
  case (Cons i ids)
  obtain r t1 where p: "proc i tr = (r, t1)" by (cases "proc i tr")
  with assms have ft: "fetches t1 = fetches tr @ urls_of ev [i]"
    and fl: "\<And>j reason. r = Inr (Failure j reason) \<Longrightarrow> j = i \<and> (errors_described ev \<longrightarrow> reason \<noteq> [])"
    unfolding one_attempt_def by blast+
  from p Cons.prems obtain out where r: "r = Inr out"
    by (cases r) auto
  have u: "urls_of ev (i # ids) = urls_of ev [i] @ urls_of ev ids"
    by (rule urls_of_simps(2))
  show ?case
  proof (cases out)
    case (Success d)
    with p r Cons.prems have "processIds proc ids (s @ [d]) f t1 = (Inr (s', f'), tr')" by simp
    from Cons.IH [OF this] obtain oks where
      "length oks = length ids"
      "length s' = length (s @ [d]) + length (filter (\<lambda>b. b) oks)"
      "map fst f' = map fst f @ map fst (filter (\<lambda>p. \<not> snd p) (zip ids oks))"
      "fetches tr' = fetches t1 @ urls_of ev ids"
      "errors_described ev \<longrightarrow> (\<forall>x \<in> set f'. x \<in> set f \<or> snd x \<noteq> [])"
      by blast
    with ft u show ?thesis
      by (intro exI [of _ "True # oks"]) simp
  next
    case (Failure j reason)
    with fl r have j: "j = i" and rs: "errors_described ev \<longrightarrow> reason \<noteq> []" by blast+
    from Failure p r Cons.prems have "processIds proc ids s (f @ [(j, reason)]) t1 = (Inr (s', f'), tr')"
      by simp
    from Cons.IH [OF this] obtain oks where
      "length oks = length ids"
      "length s' = length s + length (filter (\<lambda>b. b) oks)"
      "map fst f' = map fst (f @ [(j, reason)]) @ map fst (filter (\<lambda>p. \<not> snd p) (zip ids oks))"
      "fetches tr' = fetches t1 @ urls_of ev ids"
      "errors_described ev \<longrightarrow> (\<forall>x \<in> set f'. x \<in> set (f @ [(j, reason)]) \<or> snd x \<noteq> [])"
      by blast
    with ft j rs u show ?thesis
      by (intro exI [of _ "False # oks"]) auto
  qed
qed

lemma length_filter_partition:
  "length oks = length ids \<Longrightarrow>
     length (filter (\<lambda>b. b) oks) + length (filter (\<lambda>p. \<not> snd p) (zip ids oks)) = length ids"
proof (induction oks arbitrary: ids)
  case Nil
  then show ?case by simp
next
  case (Cons b oks)
  then show ?case by (cases ids) auto
qed

text \<open>An exception of \<open>processTweetId\<close> ends the loop: the ids after it are not processed.\<close>

lemma processIds_rejected:
  "processIds (processTweetId_v1 ev) (JObj ((lit ''toString'', v) # kvs) # ids) s f tr = (Inl no_primitive, tr)"
  by (simp add: processTweetId_v1_unprintable not_printable_odd)

lemma url_of_id_eq: "url_of_id a = url_of_id b \<longleftrightarrow> a = b"
  by (simp add: url_of_id_def lit_eq_iff)

lemma env_batch_sel:
  "generateContent env_batch tr p = Inl (new_Error (lit ''fetch failed''))"
  "date_now env_batch tr = 1700000000000"
  "http_fetch env_batch tr url =
     Inr \<lparr>resp_ok = True, resp_status = 200,
          resp_json = Inr (JObj [(lit ''status'', JStr (lit ''success'')),
                                 (lit ''tweets'',
                                    if url = url_of_id ''A'' then JArr [sample_tweet ''A'']
                                    else if url = url_of_id ''C'' then JArr [sample_tweet ''C'']
                                    else JArr [])])\<rparr>"
  "article_save env_batch tr doc = Inr doc"
  by (simp_all add: env_batch_def)

lemma env_batch_described: "errors_described env_batch"
  by (simp add: errors_described_def env_batch_sel)

lemma sample_tweet_fields:
  "get_prop (sample_tweet i) ''text'' = Inr (JStr (lit ''Heavy rain in Hyderabad''))"
  "get_prop (sample_tweet i) ''createdAt'' = Inr (JStr (lit ''Mon Nov 02 2026''))"
  "get_prop (sample_tweet i) ''lang'' = Inr JUndefined"
  "opt_prop (sample_tweet i) ''text'' = JStr (lit ''Heavy rain in Hyderabad'')"
  "opt_prop (sample_tweet i) ''url'' = JStr (lit ''https://x.com/news/status/'' @ lit i)"
  "opt_prop (sample_tweet i) ''id'' = JStr (lit i)"
  "opt_prop (sample_tweet i) ''createdAt'' = JStr (lit ''Mon Nov 02 2026'')"
  "opt_prop (sample_tweet i) ''author'' =
     JObj [(lit ''name'', JStr (lit ''News'')), (lit ''userName'', JStr (lit ''news''))]"
  by (simp_all add: sample_tweet_def opt_prop_def lit_eq_iff)

lemma opt_prop_JObj:
  "opt_prop (JObj kvs) name = (case map_of (rev kvs) (lit name) of None \<Rightarrow> JUndefined | Some v \<Rightarrow> v)"
  by (simp add: opt_prop_def)

lemma get_prop_present: "present t \<Longrightarrow> get_prop t name = Inr (opt_prop t name)"
  by (cases t) (auto simp: opt_prop_def present_def)

text \<open>
  A run of \<open>processTweetId\<close> where the content API answers with the sample tweet
  and the generative service fails: the document made of the fallback goes to
  the store, and the store's answer decides the outcome.
\<close>

lemma pick_sample:
  assumes "http_fetch ev tr url =
     Inr \<lparr>resp_ok = True, resp_status = 200,
          resp_json = Inr (JObj [(lit ''status'', JStr (lit ''success'')),
                                 (lit ''tweets'', JArr [sample_tweet i])])\<rparr>"
  shows "bind_err (http_fetch ev tr url) (pick_tweet_v1 ev) = Inr (sample_tweet i)"
    and "bind_err (http_fetch ev tr url) pick_tweet_v2 = Inr (sample_tweet i)"
  using assms
  by (simp_all add: bind_err_simps pick_tweet_v1_def pick_tweet_v2_def lit_eq_iff opt_prop_JObj
        opt_index_def sample_tweet_def)

lemma format_fallback:
  assumes "generateContent ev tr (TweetPrompt (JStr t)) = Inl e"
  shows "\<exists>g. formatTweetWithGemini_v1 ev (JStr t) tr =
            (Inr g, tr @ [EvGenerate (TweetPrompt (JStr t)), EvNow, EvNow]) \<and>
          present g \<and> opt_prop g ''summary'' = JStr t"
    and "\<exists>g. formatTweetWithGemini_v2 ev (JStr t) tr =
            (Inr g, tr @ [EvGenerate (TweetPrompt (JStr t)), EvNow, EvNow]) \<and>
          present g \<and> opt_prop g ''summary'' = JStr t"
  using assms
  by (simp_all add: formatTweetWithGemini_v1_def tweet_try_v1_def tweet_fallback_v1_str
        formatTweetWithGemini_v2_def tweet_try_v2_def tweet_fallback_v2_str
        interp_simps present_def six_record_fields)

lemma article_sample:
  assumes "present g" and "opt_prop g ''summary'' = JStr s"
  shows "\<exists>doc. newArticle_v1 ev (sample_tweet i) g now = Inr (JObj doc) \<and>
           opt_prop (JObj doc) ''tweetId'' = JStr (lit i)"
    and "\<exists>doc. newArticle_v2 ev (sample_tweet i) g now = Inr (JObj doc) \<and>
           opt_prop (JObj doc) ''tweetId'' = JStr (lit i)"
  using assms
  by (simp_all add: newArticle_v1_def twitterEmbed_v1_def newArticle_v2_def twitterEmbed_v2_def
        bind_err_simps sample_tweet_fields interp_simps get_prop_present opt_prop_JObj lit_eq_iff)

lemma try_sample_v1:
  assumes "http_fetch ev tr (url_of_id i) =
     Inr \<lparr>resp_ok = True, resp_status = 200,
          resp_json = Inr (JObj [(lit ''status'', JStr (lit ''success'')),
                                 (lit ''tweets'', JArr [sample_tweet i])])\<rparr>"
    and "generateContent ev (tr @ [EvFetch (url_of_id i)])
           (TweetPrompt (JStr (lit ''Heavy rain in Hyderabad''))) = Inl e"
    and "t2 = tr @ [EvFetch (url_of_id i),
           EvGenerate (TweetPrompt (JStr (lit ''Heavy rain in Hyderabad''))), EvNow, EvNow, EvNow]"
  shows "\<exists>doc. processTweetId_try_v1 ev (JStr (lit i)) tr =
           (article_save ev t2 (JObj doc), t2 @ [EvSave (JObj doc)]) \<and>
         opt_prop (JObj doc) ''tweetId'' = JStr (lit i)"
proof -
  from format_fallback(1) [OF assms(2)] obtain g where
    g: "formatTweetWithGemini_v1 ev (JStr (lit ''Heavy rain in Hyderabad'')) (tr @ [EvFetch (url_of_id i)]) =
          (Inr g, tr @ [EvFetch (url_of_id i),
             EvGenerate (TweetPrompt (JStr (lit ''Heavy rain in Hyderabad''))), EvNow, EvNow])"
    and pg: "present g" "opt_prop g ''summary'' = JStr (lit ''Heavy rain in Hyderabad'')"
    by auto
  from article_sample(1) [OF pg] obtain doc where
    "newArticle_v1 ev (sample_tweet i) g
       (date_now ev (tr @ [EvFetch (url_of_id i),
          EvGenerate (TweetPrompt (JStr (lit ''Heavy rain in Hyderabad''))), EvNow, EvNow])) = Inr (JObj doc)"
    "opt_prop (JObj doc) ''tweetId'' = JStr (lit i)"
    by blast
  with g pick_sample(1) [OF assms(1)] show ?thesis
    by (simp add: processTweetId_try_v1_def tweets_url_lit sample_tweet_fields assms(3))
qed

lemma try_sample_v2:
  assumes "http_fetch ev tr (url_of_id i) =
     Inr \<lparr>resp_ok = True, resp_status = 200,
          resp_json = Inr (JObj [(lit ''status'', JStr (lit ''success'')),
                                 (lit ''tweets'', JArr [sample_tweet i])])\<rparr>"
    and "generateContent ev (tr @ [EvFetch (url_of_id i)])
           (TweetPrompt (JStr (lit ''Heavy rain in Hyderabad''))) = Inl e"
    and "t2 = tr @ [EvFetch (url_of_id i),
           EvGenerate (TweetPrompt (JStr (lit ''Heavy rain in Hyderabad''))), EvNow, EvNow, EvNow]"
  shows "\<exists>doc. processTweetId_try_v2 ev (JStr (lit i)) tr =
           (article_save ev t2 (JObj doc), t2 @ [EvSave (JObj doc)]) \<and>
         opt_prop (JObj doc) ''tweetId'' = JStr (lit i)"
proof -
  from format_fallback(2) [OF assms(2)] obtain g where
    g: "formatTweetWithGemini_v2 ev (JStr (lit ''Heavy rain in Hyderabad'')) (tr @ [EvFetch (url_of_id i)]) =
          (Inr g, tr @ [EvFetch (url_of_id i),
             EvGenerate (TweetPrompt (JStr (lit ''Heavy rain in Hyderabad''))), EvNow, EvNow])"
    and pg: "present g" "opt_prop g ''summary'' = JStr (lit ''Heavy rain in Hyderabad'')"
    by auto
  from article_sample(2) [OF pg] obtain doc where
    "newArticle_v2 ev (sample_tweet i) g
       (date_now ev (tr @ [EvFetch (url_of_id i),
          EvGenerate (TweetPrompt (JStr (lit ''Heavy rain in Hyderabad''))), EvNow, EvNow])) = Inr (JObj doc)"
    "opt_prop (JObj doc) ''tweetId'' = JStr (lit i)"
    by blast
  with g pick_sample(2) [OF assms(1)] show ?thesis
    by (simp add: processTweetId_try_v2_def tweets_url_lit sample_tweet_fields assms(3))
qed

lemma batch_fetch:
  "i = ''A'' \<or> i = ''C'' \<Longrightarrow>
     http_fetch env_batch tr (url_of_id i) =
       Inr \<lparr>resp_ok = True, resp_status = 200,
            resp_json = Inr (JObj [(lit ''status'', JStr (lit ''success'')),
                                   (lit ''tweets'', JArr [sample_tweet i])])\<rparr>"
  by (auto simp: env_batch_sel url_of_id_eq)

lemma process_batch:
  assumes "i = ''A'' \<or> i = ''C''"
  shows "\<exists>d tr'. processTweetId_v1 env_batch (JStr (lit i)) tr = (Inr (Success d), tr')"
    and "\<exists>d tr'. processTweetId_v2 env_batch (JStr (lit i)) tr = (Inr (Success d), tr')"
  using try_sample_v1 [OF batch_fetch [OF assms] env_batch_sel(1) refl, of tr]
    try_sample_v2 [OF batch_fetch [OF assms] env_batch_sel(1) refl, of tr]
  by (auto simp: processTweetId_v1_def processTweetId_v2_def env_batch_sel(4))

lemma process_batch_B:
  "processTweetId_v1 env_batch (JStr (lit ''B'')) tr =
     (Inr (Failure (JStr (lit ''B'')) (lit ''Not found or API error'')), tr @ [EvFetch (url_of_id ''B'')])"
  by (simp add: processTweetId_v1_def processTweetId_try_v1_def tweets_url_lit env_batch_sel(3)
        bind_err_simps pick_tweet_v1_def url_of_id_eq lit_eq_iff
        described_new_Error interp_simps)

lemma batch_failed:
  "\<exists>dA dC tr'. processIds (processTweetId_v1 env_batch)
       [JStr (lit ''A''), JStr (lit ''B''), JStr (lit ''C'')] [] [] [] =
     (Inr ([dA, dC], [(JStr (lit ''B''), lit ''Not found or API error'')]), tr')"
proof -
  obtain dA tA where a: "processTweetId_v1 env_batch (JStr (lit ''A'')) [] = (Inr (Success dA), tA)"
    using process_batch(1) [of "''A''" "[]"] by auto
  obtain dC tC where c: "processTweetId_v1 env_batch (JStr (lit ''C''))
      (tA @ [EvFetch (url_of_id ''B'')]) = (Inr (Success dC), tC)"
    using process_batch(1) [of "''C''"] by blast
  show ?thesis
    by (simp add: a process_batch_B c)
qed

text \<open>The store that keeps its articles unique, asked for \<open>A\<close> twice.\<close>

lemma env_unique_sel:
  "generateContent env_unique tr p = Inl (new_Error (lit ''fetch failed''))"
  "http_fetch env_unique tr url = http_fetch env_batch tr url"
  "article_save env_unique tr doc = (if saved_before tr then Inl duplicate_key else Inr doc)"
  by (simp_all add: env_unique_def env_batch_def)

lemma saved_before_append: "saved_before (a @ b) \<longleftrightarrow> saved_before a \<or> saved_before b"
  by (induction a rule: saved_before.induct) simp_all

lemma process_unique:
  "\<exists>doc tr'. processTweetId_v1 env_unique (JStr (lit ''A'')) tr =
     (Inr (if saved_before tr then Failure (JStr (lit ''A'')) (lit ''E11000 duplicate key error'')
           else Success (JObj doc)), tr') \<and>
     opt_prop (JObj doc) ''tweetId'' = JStr (lit ''A'') \<and> saved_before tr'"
proof -
  have f: "http_fetch env_unique tr (url_of_id ''A'') =
       Inr \<lparr>resp_ok = True, resp_status = 200,
            resp_json = Inr (JObj [(lit ''status'', JStr (lit ''success'')),
                                   (lit ''tweets'', JArr [sample_tweet ''A''])])\<rparr>"
    by (simp add: env_unique_sel batch_fetch)
  from try_sample_v1 [OF f env_unique_sel(1) refl] show ?thesis
    by (auto simp: processTweetId_v1_def interp_simps duplicate_key_def env_unique_sel(3)
          saved_before_append)
qed

text \<open>
  Claim C2, as amended. The loop over the ids, with the \<open>processTweetId\<close> of the
  second server file, or with that of the first on ids that convert to a string,
  ends with its two lists and gives every position of the list exactly one
  outcome: position by position an id either adds one record to the successful
  posts or adds its own failure entry, in order, so the two lists together are
  as long as the list of ids, which is the size of the set of ids when no id is
  repeated. Every id of which a URL can be made is fetched, in order, whatever
  happened to the ids before it, and each failure entry has a reason, not empty
  when the services' errors say what went wrong.
\<close>

theorem processIds_partition:
  assumes "proc = processTweetId_v2 ev \<or> (proc = processTweetId_v1 ev \<and> list_all (printable ev) ids)"
  shows "\<exists>successfulPosts failedIds tr'.
     processIds proc ids [] [] tr = (Inr (successfulPosts, failedIds), tr') \<and>
     length successfulPosts + length failedIds = length ids \<and>
     (distinct ids \<longrightarrow> length successfulPosts + length failedIds = card (set ids)) \<and>
     (\<exists>oks. length oks = length ids \<and>
        length successfulPosts = length (filter (\<lambda>b. b) oks) \<and>
        map fst failedIds = map fst (filter (\<lambda>p. \<not> snd p) (zip ids oks))) \<and>
     fetches tr' = fetches tr @ urls_of ev ids \<and>
     (errors_described ev \<longrightarrow> (\<forall>x \<in> set failedIds. snd x \<noteq> []))"
proof -
  from assms have one: "one_attempt ev proc"
    using one_attempt_v1 one_attempt_v2 by blast
  from assms have "list_all (answers proc) ids"
    by (auto simp: list_all_iff answers_v1 answers_v2)
  from processIds_answers [OF this] obtain successfulPosts failedIds tr' where
    r: "processIds proc ids [] [] tr = (Inr (successfulPosts, failedIds), tr')"
    by blast
  from processIds_general [OF one r] obtain oks where oks:
    "length oks = length ids"
    "length successfulPosts = length (filter (\<lambda>b. b) oks)"
    "map fst failedIds = map fst (filter (\<lambda>p. \<not> snd p) (zip ids oks))"
    "fetches tr' = fetches tr @ urls_of ev ids"
    "errors_described ev \<longrightarrow> (\<forall>x \<in> set failedIds. snd x \<noteq> [])"
    by auto
  have "length failedIds = length (filter (\<lambda>p. \<not> snd p) (zip ids oks))"
    using oks(3) by (metis length_map)
  with oks(1,2) have n: "length successfulPosts + length failedIds = length ids"
    using length_filter_partition [of oks ids] by simp
  show ?thesis
    using r n oks by (auto simp: distinct_card)
qed

text \<open>
  The ids \<open>A\<close>, \<open>B\<close>, \<open>C\<close> where the content API knows only \<open>A\<close> and \<open>C\<close>: \<open>B\<close>
  fails as not found, the other two are saved, all three are fetched.
\<close>

theorem processIds_partition_witness:
  "\<exists>dA dC tr'. processIds (processTweetId_v1 env_batch)
       [JStr (lit ''A''), JStr (lit ''B''), JStr (lit ''C'')] [] [] [] =
     (Inr ([dA, dC], [(JStr (lit ''B''), lit ''Not found or API error'')]), tr') \<and>
   fetches tr' = [url_of_id ''A'', url_of_id ''B'', url_of_id ''C''] \<and>
   card (set [JStr (lit ''A''), JStr (lit ''B''), JStr (lit ''C'')]) = 3"
proof -
  let ?ids = "[JStr (lit ''A''), JStr (lit ''B''), JStr (lit ''C'')]"
  have p: "list_all (printable env_batch) ?ids" by (simp add: printable_simps)
  have d: "distinct ?ids" by (simp add: lit_eq_iff)
  from processIds_partition [OF disjI2 [OF conjI [OF refl p]], of "[]"] d batch_failed
  show ?thesis by (auto simp: urls_of_lit urls_of_simps(1))
qed

text \<open>
  Claim C2 as stated fails where an id is repeated: the two lists count the
  positions of the list, not the members of the set. With a store that keeps
  its articles unique, the request for \<open>A\<close> and \<open>A\<close> gives one saved article and
  one failure, both for \<open>A\<close>: two outcomes for a set of one id, which is in the
  first list and in the second.
\<close>

theorem processIds_repeated_id:
  "\<exists>d tr'. processIds (processTweetId_v1 env_unique) [JStr (lit ''A''), JStr (lit ''A'')] [] [] [] =
     (Inr ([d], [(JStr (lit ''A''), lit ''E11000 duplicate key error'')]), tr') \<and>
   opt_prop d ''tweetId'' = JStr (lit ''A'') \<and>
   length [d] + length [(JStr (lit ''A''), lit ''E11000 duplicate key error'')] = 2 \<and>
   card (set [JStr (lit ''A''), JStr (lit ''A'')]) = 1"
proof -
  obtain d1 t1 where a: "processTweetId_v1 env_unique (JStr (lit ''A'')) [] = (Inr (Success (JObj d1)), t1)"
    "opt_prop (JObj d1) ''tweetId'' = JStr (lit ''A'')" "saved_before t1"
    using process_unique [of "[]"] by auto
  obtain t2 where b: "processTweetId_v1 env_unique (JStr (lit ''A'')) t1 =
      (Inr (Failure (JStr (lit ''A'')) (lit ''E11000 duplicate key error'')), t2)"
    using process_unique [of t1] a(3) by auto
  show ?thesis
    using a b by simp
qed

section \<open>The dedup cache and the author endpoint\<close>

lemma same_value_zero_iff: "same_value_zero k' k \<longleftrightarrow> by_value k' \<and> k' = k"
  by (cases k') (simp_all add: by_value_def)

lemma cache_get_set:
  "cache_get (cache_set c k v) k' = (if same_value_zero k k' then Some v else cache_get c k')"
  by (induction c) (auto simp: same_value_zero_iff)

lemma cache_set_mem: "(k, v) \<in> set (cache_set c k v)"
  by (induction c) (auto simp: same_value_zero_iff)

lemma cache_set_keeps: "(k, v) \<in> set c \<Longrightarrow> (k, v) \<in> set (cache_set c k' v)"
  by (induction c) (auto simp: same_value_zero_iff)

lemma cache_ok_set: "cache_ok c \<Longrightarrow> v \<noteq> 0 \<Longrightarrow> cache_ok (cache_set c k v)"
  by (induction c) (auto simp: cache_ok_def)

lemma cache_ok_get: "cache_ok c \<Longrightarrow> cache_get c k = Some ts \<Longrightarrow> ts \<noteq> 0"
  by (induction c) (auto simp: cache_ok_def split: if_splits)

lemma cache_get_by_value: "cache_get c k = Some ts \<Longrightarrow> by_value k"
  by (induction c) (auto simp: same_value_zero_iff split: if_splits)

lemma cache_hit_spec: "cache_ok c \<Longrightarrow> cache_hit c now k = isRecentlyProcessed_spec c now k"
  by (auto simp: cache_hit_def isRecentlyProcessed_spec_def CACHE_DURATION_MS_def
        dest: cache_ok_get split: option.splits)

lemma get_prop_id: "get_prop t ''id'' = Inr x \<Longrightarrow> x = tweet_id t \<and> present t"
  by (cases t) (auto simp: tweet_id_def opt_prop_def present_def)

lemma partition_cached_acc:
  "partition_cached c now tweets tp sk = Inr (tp', sk') \<Longrightarrow>
     tp' = tp @ filter (\<lambda>t. \<not> cache_hit c now (tweet_id t)) tweets \<and>
     sk' = sk @ map tweet_id (filter (\<lambda>t. cache_hit c now (tweet_id t)) tweets) \<and>
     list_all present tweets"
proof (induction tweets arbitrary: tp sk)
  case Nil
  then show ?case by simp
next
  case (Cons t tweets)
  from Cons.prems obtain x where x: "get_prop t ''id'' = Inr x"
    by (cases "get_prop t ''id''") auto
  then have xt: "x = tweet_id t" "present t" using get_prop_id by blast+
  show ?case
  proof (cases "cache_hit c now (tweet_id t)")
    case True
    with Cons.prems x xt have "partition_cached c now tweets tp (sk @ [tweet_id t]) = Inr (tp', sk')" by simp
    from Cons.IH [OF this] True xt show ?thesis by simp
  next
    case False
    with Cons.prems x xt have "partition_cached c now tweets (tp @ [t]) sk = Inr (tp', sk')" by simp
    from Cons.IH [OF this] False xt show ?thesis by simp
  qed
qed

lemma partition_cached_total:
  "list_all present tweets \<Longrightarrow>
     partition_cached c now tweets tp sk =
       Inr (tp @ filter (\<lambda>t. \<not> cache_hit c now (tweet_id t)) tweets,
            sk @ map tweet_id (filter (\<lambda>t. cache_hit c now (tweet_id t)) tweets))"
  by (induction tweets arbitrary: tp sk) (auto simp: get_prop_present tweet_id_def)

lemma partition_cached_absent:
  "\<not> list_all present tweets \<Longrightarrow> \<exists>e. partition_cached c now tweets tp sk = Inl e"
  using partition_cached_acc [of c now tweets tp sk]
  by (cases "partition_cached c now tweets tp sk") auto

text \<open>
  Step 3 is the loop over the ids of the tweets, with the marks added: it ends
  as the loop does, and the cache then holds the marks of the tweets that were
  attempted, all of them when the loop came to its end.
\<close>

lemma process_tweets_processIds:
  "list_all present tweets \<Longrightarrow> process_tweets proc now tweets s f c tr = (r, c', tr') \<Longrightarrow>
     processIds proc (map tweet_id tweets) s f tr = (r, tr') \<and>
     (\<exists>n. c' = mark_all now c (take n tweets) \<and> ((\<exists>x. r = Inr x) \<longrightarrow> n = length tweets))"
proof (induction tweets arbitrary: s f c tr)
  case Nil
  then show ?case by (auto simp: mark_all_def)
next
  case (Cons t tweets)
  then have p: "get_prop t ''id'' = Inr (tweet_id t)" and rest: "list_all present tweets"
    by (simp_all add: get_prop_present tweet_id_def)
  obtain q t1 where o: "proc (tweet_id t) tr = (q, t1)" by (cases "proc (tweet_id t) tr")
  show ?case
  proof (cases q)
    case (Inl e)
    with Cons.prems(2) p o have "r = Inl e" "c' = c" "tr' = t1" by simp_all
    with Inl o show ?thesis
      by (auto simp: mark_all_def intro: exI [of _ 0])
  next
    case (Inr out)
    show ?thesis
    proof (cases out)
      case (Success d)
      with Inr Cons.prems(2) p o have
        "process_tweets proc now tweets (s @ [d]) f (cache_set c (tweet_id t) now) t1 = (r, c', tr')"
        by simp
      from Cons.IH [OF rest this] obtain n where
        "processIds proc (map tweet_id tweets) (s @ [d]) f t1 = (r, tr')"
        "c' = mark_all now (cache_set c (tweet_id t) now) (take n tweets)"
        "(\<exists>x. r = Inr x) \<longrightarrow> n = length tweets"
        by blast
      with Inr Success o show ?thesis
        by (auto simp: mark_all_def intro!: exI [of _ "Suc n"])
    next
      case (Failure i reason)
      with Inr Cons.prems(2) p o have
        "process_tweets proc now tweets s (f @ [(i, reason)]) (cache_set c (tweet_id t) now) t1 = (r, c', tr')"
        by simp
      from Cons.IH [OF rest this] obtain n where
        "processIds proc (map tweet_id tweets) s (f @ [(i, reason)]) t1 = (r, tr')"
        "c' = mark_all now (cache_set c (tweet_id t) now) (take n tweets)"
        "(\<exists>x. r = Inr x) \<longrightarrow> n = length tweets"
        by blast
      with Inr Failure o show ?thesis
        by (auto simp: mark_all_def intro!: exI [of _ "Suc n"])
    qed
  qed
qed

lemma process_tweets_complete:
  assumes "list_all present tweets"
    and "processIds proc (map tweet_id tweets) s f tr = (Inr x, tr')"
  shows "process_tweets proc now tweets s f c tr = (Inr x, mark_all now c tweets, tr')"
proof -
  obtain r c' t' where p: "process_tweets proc now tweets s f c tr = (r, c', t')"
    by (metis prod.exhaust)
  from process_tweets_processIds [OF assms(1) p] assms(2) p show ?thesis
    by auto
qed

lemma process_tweets_answers:
  assumes "list_all present tweets" and "list_all (answers proc) (map tweet_id tweets)"
  shows "\<exists>x tr'. process_tweets proc now tweets s f c tr = (Inr x, mark_all now c tweets, tr')"
proof -
  from processIds_answers [OF assms(2)] obtain s' f' tr' where
    "processIds proc (map tweet_id tweets) s f tr = (Inr (s', f'), tr')"
    by blast
  from process_tweets_complete [OF assms(1) this] show ?thesis by blast
qed

lemma foldl_mark_mem:
  "(k, now) \<in> set c \<Longrightarrow> (k, now) \<in> set (mark_all now c tweets)"
  by (induction tweets arbitrary: c) (simp_all add: cache_set_keeps mark_all_def)

lemma foldl_mark_all:
  "t \<in> set tweets \<Longrightarrow> (tweet_id t, now) \<in> set (mark_all now c tweets)"
proof (induction tweets arbitrary: c)
  case Nil
  then show ?case by simp
next
  case (Cons a tweets)
  then show ?case
    using foldl_mark_mem [of "tweet_id a" now "cache_set c (tweet_id a) now" tweets]
    by (auto simp: cache_set_mem mark_all_def)
qed

lemma foldl_mark_get:
  "cache_get (mark_all now c tweets) k =
     (if by_value k \<and> k \<in> tweet_id ` set tweets then Some now else cache_get c k)"
  by (induction tweets arbitrary: c) (auto simp: cache_get_set same_value_zero_iff mark_all_def)

lemma foldl_mark_ok:
  "cache_ok c \<Longrightarrow> now \<noteq> 0 \<Longrightarrow> cache_ok (mark_all now c tweets)"
  by (induction tweets arbitrary: c) (simp_all add: cache_ok_set mark_all_def)

lemma cache_hit_filter:
  "cache_ok c \<Longrightarrow>
     filter (\<lambda>t. \<not> cache_hit c now (tweet_id t)) tweets = attempted_tweets c now tweets \<and>
     map tweet_id (filter (\<lambda>t. cache_hit c now (tweet_id t)) tweets) = skipped_ids c now tweets"
  by (simp add: attempted_tweets_def skipped_ids_def cache_hit_spec)

lemma attempted_present: "list_all present tweets \<Longrightarrow> list_all present (attempted_tweets c now tweets)"
  by (simp add: attempted_tweets_def list_all_iff)

text \<open>Steps 2 and 3 of the author endpoint on a list of tweets.\<close>

lemma author_steps:
  assumes "cache_ok c" and "list_all present tweets"
  shows "partition_cached c now tweets [] [] = Inr (attempted_tweets c now tweets, skipped_ids c now tweets)"
    and "processIds proc (map tweet_id (attempted_tweets c now tweets)) [] [] tr = (Inr x, tr') \<Longrightarrow>
       process_tweets proc now (attempted_tweets c now tweets) [] [] c tr =
       (Inr x, mark_all now c (attempted_tweets c now tweets), tr')"
  using assms
  by (simp_all add: partition_cached_total cache_hit_filter process_tweets_complete attempted_present)

lemma iterate_JArr: "iterate (JArr xs) expr = Inr xs"
  by (simp add: iterate_def)

lemma sample_tweet_id: "tweet_id (sample_tweet i) = JStr (lit i)" "present (sample_tweet i)"
  by (simp_all add: tweet_id_def sample_tweet_def opt_prop_def lit_eq_iff present_def)

lemma user_url_lit: "user_url ev (JStr (lit u)) = Inr (url_of_user u)"
  by (simp add: user_url_def interp_simps bind_err_simps url_of_user_def)

lemma env_author_sel:
  "date_now env_author tr = 1700000000000"
  "http_fetch env_author tr (url_of_user ''news'') =
     Inr \<lparr>resp_ok = True, resp_status = 200,
          resp_json = Inr (JObj [(lit ''status'', JStr (lit ''success'')),
                                 (lit ''tweets'', JArr [sample_tweet ''A'', sample_tweet ''C''])])\<rparr>"
  by (simp_all add: env_author_def env_batch_def)

lemma hour_ago_split:
  "cache_ok cache_hour_ago"
  "attempted_tweets cache_hour_ago 1700000000000 [sample_tweet ''A'', sample_tweet ''C''] = [sample_tweet ''C'']"
  "skipped_ids cache_hour_ago 1700000000000 [sample_tweet ''A'', sample_tweet ''C''] = [JStr (lit ''A'')]"
  by (simp_all add: cache_ok_def cache_hour_ago_def attempted_tweets_def skipped_ids_def
        isRecentlyProcessed_spec_def sample_tweet_id lit_eq_iff)

text \<open>
  Claim C3. In the author endpoint of either server file, with a cache whose time
  stamps are clock readings (none is 0), an id is skipped exactly when the
  specification's test holds: an entry exists for it and \<open>now\<close> minus the entry's
  time stamp is less than 12 hours. The reply lists exactly these ids as skipped;
  the posts, the failures and the trace of the request are those of the loop of
  \<open>processTweetId\<close> over the ids of the other tweets, in order, so no skipped
  tweet reaches the formatter or the store: after the author's feed, the URLs
  fetched are those of the attempted ids, and when every tweet is skipped nothing
  more is called and the cache is as it was. The author's name is one of which
  the URL of the feed can be made; in the first server file the ids of the feed
  that are attempted are ones that convert to a string, as the ids of tweets
  are.
\<close>

theorem author_endpoint_skips_recent:
  assumes "truthy userName" and "cache_ok c" and "list_all present tweets"
    and "user_url ev userName = Inr url"
    and "tr1 = tr @ [EvFetch url]" and "now = date_now ev tr1"
    and "ids = map tweet_id (attempted_tweets c now tweets)"
  shows "(bind_err (http_fetch ev tr url) (user_tweets_v1 ev) = Inr (JArr tweets) \<longrightarrow>
        list_all (printable ev) ids \<longrightarrow>
      (\<exists>rep successfulPosts failedIds tr'.
        processIds (processTweetId_v1 ev) ids [] [] (tr1 @ [EvNow]) = (Inr (successfulPosts, failedIds), tr') \<and>
        get_user_last_tweets_v1 ev userName c tr =
          (Inr rep, mark_all now c (attempted_tweets c now tweets), tr') \<and>
        reply_status rep = 200 \<and>
        opt_prop (reply_body rep) ''skippedCachedIds'' = JArr (skipped_ids c now tweets) \<and>
        opt_prop (reply_body rep) ''successfulPosts'' = JArr successfulPosts \<and>
        opt_prop (reply_body rep) ''failedIds'' = JArr (map failed_v1 failedIds) \<and>
        fetches tr' = fetches tr @ url # urls_of ev ids \<and>
        (attempted_tweets c now tweets = [] \<longrightarrow>
           tr' = tr1 @ [EvNow] \<and> mark_all now c (attempted_tweets c now tweets) = c))) \<and>
     (\<forall>data. bind_err (http_fetch ev tr url) resp_json = Inr data \<longrightarrow>
        user_tweets_v2 data = tweets \<longrightarrow>
      (\<exists>rep success failed tr'.
        processIds (processTweetId_v2 ev) ids [] [] (tr1 @ [EvNow]) = (Inr (success, failed), tr') \<and>
        get_user_last_tweets_v2 ev userName c tr =
          (Inr rep, mark_all now c (attempted_tweets c now tweets), tr') \<and>
        reply_status rep = 200 \<and>
        opt_prop (reply_body rep) ''skipped'' = JArr (skipped_ids c now tweets) \<and>
        opt_prop (reply_body rep) ''success'' = JArr success \<and>
        opt_prop (reply_body rep) ''failed'' = JArr (map failed_v2 failed) \<and>
        fetches tr' = fetches tr @ url # urls_of ev ids \<and>
        (attempted_tweets c now tweets = [] \<longrightarrow>
           tr' = tr1 @ [EvNow] \<and> mark_all now c (attempted_tweets c now tweets) = c)))"
proof (intro conjI allI impI)
  assume f: "bind_err (http_fetch ev tr url) (user_tweets_v1 ev) = Inr (JArr tweets)"
    and pr: "list_all (printable ev) ids"
  from pr have "list_all (answers (processTweetId_v1 ev)) ids"
    by (auto simp: list_all_iff answers_v1)
  from processIds_answers [OF this] obtain successfulPosts failedIds tr' where
    r: "processIds (processTweetId_v1 ev) ids [] [] (tr1 @ [EvNow]) = (Inr (successfulPosts, failedIds), tr')"
    by blast
  from processIds_general [OF one_attempt_v1 r]
  have ft: "fetches tr' = fetches tr @ url # urls_of ev ids"
    by (auto simp: assms(5) fetches_append)
  have e: "attempted_tweets c now tweets = [] \<longrightarrow>
      tr' = tr1 @ [EvNow] \<and> mark_all now c (attempted_tweets c now tweets) = c"
    using r by (auto simp: assms(7) mark_all_def)
  have len: "interp ev (opt_prop (JArr tweets) ''length'') = Inr (interp_num ev (int (length tweets)))"
    by (simp add: opt_prop_def interp_simps)
  note st = author_steps(2) [OF assms(2,3) r [unfolded assms(7)]]
  have "\<exists>rep. get_user_last_tweets_v1 ev userName c tr =
          (Inr rep, mark_all now c (attempted_tweets c now tweets), tr') \<and>
        reply_status rep = 200 \<and>
        opt_prop (reply_body rep) ''skippedCachedIds'' = JArr (skipped_ids c now tweets) \<and>
        opt_prop (reply_body rep) ''successfulPosts'' = JArr successfulPosts \<and>
        opt_prop (reply_body rep) ''failedIds'' = JArr (map failed_v1 failedIds)"
    using assms(1) f st
    unfolding get_user_last_tweets_v1_def assms(4) Let_def
    by (simp add: assms(5,6) iterate_JArr bind_err_simps author_steps(1) [OF assms(2,3)] len
          send_def opt_prop_JObj lit_eq_iff)
  with r ft e show "\<exists>rep successfulPosts failedIds tr'.
        processIds (processTweetId_v1 ev) ids [] [] (tr1 @ [EvNow]) = (Inr (successfulPosts, failedIds), tr') \<and>
        get_user_last_tweets_v1 ev userName c tr =
          (Inr rep, mark_all now c (attempted_tweets c now tweets), tr') \<and>
        reply_status rep = 200 \<and>
        opt_prop (reply_body rep) ''skippedCachedIds'' = JArr (skipped_ids c now tweets) \<and>
        opt_prop (reply_body rep) ''successfulPosts'' = JArr successfulPosts \<and>
        opt_prop (reply_body rep) ''failedIds'' = JArr (map failed_v1 failedIds) \<and>
        fetches tr' = fetches tr @ url # urls_of ev ids \<and>
        (attempted_tweets c now tweets = [] \<longrightarrow>
           tr' = tr1 @ [EvNow] \<and> mark_all now c (attempted_tweets c now tweets) = c)"
    by blast
next
  fix data
  assume f: "bind_err (http_fetch ev tr url) resp_json = Inr data"
    and d: "user_tweets_v2 data = tweets"
  have "list_all (answers (processTweetId_v2 ev)) ids"
    by (simp add: list_all_iff answers_v2)
  from processIds_answers [OF this] obtain success failed tr' where
    r: "processIds (processTweetId_v2 ev) ids [] [] (tr1 @ [EvNow]) = (Inr (success, failed), tr')"
    by blast
  from processIds_general [OF one_attempt_v2 r]
  have ft: "fetches tr' = fetches tr @ url # urls_of ev ids"
    by (auto simp: assms(5) fetches_append)
  have e: "attempted_tweets c now tweets = [] \<longrightarrow>
      tr' = tr1 @ [EvNow] \<and> mark_all now c (attempted_tweets c now tweets) = c"
    using r by (auto simp: assms(7) mark_all_def)
  note st = author_steps(2) [OF assms(2,3) r [unfolded assms(7)]]
  have "\<exists>rep. get_user_last_tweets_v2 ev userName c tr =
          (Inr rep, mark_all now c (attempted_tweets c now tweets), tr') \<and>
        reply_status rep = 200 \<and>
        opt_prop (reply_body rep) ''skipped'' = JArr (skipped_ids c now tweets) \<and>
        opt_prop (reply_body rep) ''success'' = JArr success \<and>
        opt_prop (reply_body rep) ''failed'' = JArr (map failed_v2 failed)"
    using assms(1) f d st
    unfolding get_user_last_tweets_v2_def assms(4) Let_def
    by (simp add: assms(5,6) author_steps(1) [OF assms(2,3)] send_def opt_prop_JObj lit_eq_iff)
  with r ft e show "\<exists>rep success failed tr'.
        processIds (processTweetId_v2 ev) ids [] [] (tr1 @ [EvNow]) = (Inr (success, failed), tr') \<and>
        get_user_last_tweets_v2 ev userName c tr =
          (Inr rep, mark_all now c (attempted_tweets c now tweets), tr') \<and>
        reply_status rep = 200 \<and>
        opt_prop (reply_body rep) ''skipped'' = JArr (skipped_ids c now tweets) \<and>
        opt_prop (reply_body rep) ''success'' = JArr success \<and>
        opt_prop (reply_body rep) ''failed'' = JArr (map failed_v2 failed) \<and>
        fetches tr' = fetches tr @ url # urls_of ev ids \<and>
        (attempted_tweets c now tweets = [] \<longrightarrow>
           tr' = tr1 @ [EvNow] \<and> mark_all now c (attempted_tweets c now tweets) = c)"
    by blast
qed

text \<open>
  The feed holds \<open>A\<close> and \<open>C\<close>, and \<open>A\<close> was attempted an hour ago: \<open>A\<close> is skipped,
  only \<open>C\<close> is fetched and marked.
\<close>

theorem author_endpoint_skips_recent_witness:
  "(\<exists>rep tr'. get_user_last_tweets_v1 env_author (JStr (lit ''news'')) cache_hour_ago [] =
       (Inr rep, [(JStr (lit ''A''), 1699996400000), (JStr (lit ''C''), 1700000000000)], tr') \<and>
     reply_status rep = 200 \<and>
     opt_prop (reply_body rep) ''skippedCachedIds'' = JArr [JStr (lit ''A'')] \<and>
     fetches tr' = [url_of_user ''news'', url_of_id ''C'']) \<and>
   (\<exists>rep tr'. get_user_last_tweets_v2 env_author (JStr (lit ''news'')) cache_hour_ago [] =
       (Inr rep, [(JStr (lit ''A''), 1699996400000), (JStr (lit ''C''), 1700000000000)], tr') \<and>
     reply_status rep = 200 \<and>
     opt_prop (reply_body rep) ''skipped'' = JArr [JStr (lit ''A'')] \<and>
     fetches tr' = [url_of_user ''news'', url_of_id ''C''])"
proof -
  let ?tweets = "[sample_tweet ''A'', sample_tweet ''C'']"
  let ?name = "JStr (lit ''news'')"
  have t: "truthy ?name" by (simp add: lit_Nil_iff)
  have p: "list_all present ?tweets" by (simp add: sample_tweet_id)
  have n: "1700000000000 = date_now env_author ([] @ [EvFetch (url_of_user ''news'')])"
    by (simp add: env_author_sel)
  have i: "[JStr (lit ''C'')] = map tweet_id (attempted_tweets cache_hour_ago 1700000000000 ?tweets)"
    by (simp add: hour_ago_split sample_tweet_id)
  have f1: "bind_err (http_fetch env_author [] (url_of_user ''news'')) (user_tweets_v1 env_author) =
      Inr (JArr ?tweets)"
    by (simp add: env_author_sel bind_err_simps user_tweets_v1_def opt_prop_def lit_eq_iff)
  have f2: "bind_err (http_fetch env_author [] (url_of_user ''news'')) resp_json =
      Inr (JObj [(lit ''status'', JStr (lit ''success'')), (lit ''tweets'', JArr ?tweets)])"
    by (simp add: env_author_sel bind_err_simps)
  have u: "user_tweets_v2 (JObj [(lit ''status'', JStr (lit ''success'')), (lit ''tweets'', JArr ?tweets)]) = ?tweets"
    by (simp add: user_tweets_v2_def tweets_field_v2_def nullish_or_def opt_prop_def lit_eq_iff)
  have m: "mark_all 1700000000000 cache_hour_ago [sample_tweet ''C''] =
      [(JStr (lit ''A''), 1699996400000), (JStr (lit ''C''), 1700000000000)]"
    by (simp add: mark_all_def cache_hour_ago_def sample_tweet_id lit_eq_iff)
  have pr: "list_all (printable env_author) [JStr (lit ''C'')]"
    by (simp add: printable_simps)
  from author_endpoint_skips_recent [OF t hour_ago_split(1) p user_url_lit refl n i] f1 f2 u m pr
  show ?thesis
    by (simp add: hour_ago_split urls_of_lit urls_of_simps(1)) blast
qed

text \<open>
  Claim C4. Step 3 of the author endpoint marks the id of every tweet it attempts
  with the request's \<open>now\<close>, whatever the outcome that \<open>processTweetId\<close> gave:
  where \<open>processTweetId\<close> answers on the ids of the tweets, the cache after the
  loop is the cache before it with each attempted id set to \<open>now\<close>, so after a
  success and after a failure alike. Every attempted id then has the entry
  \<open>(id, now)\<close>, and a lookup of an id that the map compares by value finds \<open>now\<close>.
  The \<open>processTweetId\<close> of the second server file answers on every id, that of
  the first on every id that converts to a string.
\<close>

theorem marks_after_every_attempt:
  assumes "list_all present tweets"
  shows "(list_all (answers proc) (map tweet_id tweets) \<longrightarrow>
        (\<exists>r tr'. process_tweets proc now tweets s f c tr = (Inr r, mark_all now c tweets, tr'))) \<and>
     (\<exists>r tr'. process_tweets (processTweetId_v2 ev) now tweets s f c tr =
        (Inr r, mark_all now c tweets, tr')) \<and>
     (list_all (printable ev) (map tweet_id tweets) \<longrightarrow>
        (\<exists>r tr'. process_tweets (processTweetId_v1 ev) now tweets s f c tr =
           (Inr r, mark_all now c tweets, tr'))) \<and>
     (\<forall>t \<in> set tweets. (tweet_id t, now) \<in> set (mark_all now c tweets) \<and>
        (by_value (tweet_id t) \<longrightarrow> cache_get (mark_all now c tweets) (tweet_id t) = Some now)) \<and>
     (\<forall>t d tr1. present t \<longrightarrow> proc (tweet_id t) tr = (Inr (Success d), tr1) \<longrightarrow>
        process_tweets proc now [t] s f c tr = (Inr (s @ [d], f), cache_set c (tweet_id t) now, tr1)) \<and>
     (\<forall>t i reason tr1. present t \<longrightarrow> proc (tweet_id t) tr = (Inr (Failure i reason), tr1) \<longrightarrow>
        process_tweets proc now [t] s f c tr = (Inr (s, f @ [(i, reason)]), cache_set c (tweet_id t) now, tr1))"
proof (intro conjI ballI allI impI)
  assume "list_all (answers proc) (map tweet_id tweets)"
  from process_tweets_answers [OF assms this]
  show "\<exists>r tr'. process_tweets proc now tweets s f c tr = (Inr r, mark_all now c tweets, tr')" .
next
  have "list_all (answers (processTweetId_v2 ev)) (map tweet_id tweets)"
    by (simp add: list_all_iff answers_v2)
  from process_tweets_answers [OF assms this]
  show "\<exists>r tr'. process_tweets (processTweetId_v2 ev) now tweets s f c tr =
      (Inr r, mark_all now c tweets, tr')" .
next
  assume "list_all (printable ev) (map tweet_id tweets)"
  then have "list_all (answers (processTweetId_v1 ev)) (map tweet_id tweets)"
    by (auto simp: list_all_iff answers_v1)
  from process_tweets_answers [OF assms this]
  show "\<exists>r tr'. process_tweets (processTweetId_v1 ev) now tweets s f c tr =
      (Inr r, mark_all now c tweets, tr')" .
next
  fix t assume "t \<in> set tweets"
  then show "(tweet_id t, now) \<in> set (mark_all now c tweets)"
    by (rule foldl_mark_all)
next
  fix t assume "t \<in> set tweets" "by_value (tweet_id t)"
  then show "cache_get (mark_all now c tweets) (tweet_id t) = Some now"
    by (simp add: foldl_mark_get)
next
  fix t d tr1 assume "present t" "proc (tweet_id t) tr = (Inr (Success d), tr1)"
  then show "process_tweets proc now [t] s f c tr = (Inr (s @ [d], f), cache_set c (tweet_id t) now, tr1)"
    by (simp add: get_prop_present tweet_id_def)
next
  fix t i reason tr1 assume "present t" "proc (tweet_id t) tr = (Inr (Failure i reason), tr1)"
  then show "process_tweets proc now [t] s f c tr =
      (Inr (s, f @ [(i, reason)]), cache_set c (tweet_id t) now, tr1)"
    by (simp add: get_prop_present tweet_id_def)
qed

text \<open>The tweet \<open>A\<close> is marked after a failed attempt (services down) and after a saved one.\<close>

theorem marks_after_every_attempt_witness:
  "process_tweets (processTweetId_v1 env_down) 1700000000000 [sample_tweet ''A''] [] [] [] [] =
     (Inr ([], [(JStr (lit ''A''), lit ''fetch failed'')]),
      [(JStr (lit ''A''), 1700000000000)],
      [EvFetch (url_of_id ''A'')]) \<and>
   (\<exists>d tr'. process_tweets (processTweetId_v1 env_batch) 1700000000000 [sample_tweet ''A''] [] [] [] [] =
     (Inr ([d], []), [(JStr (lit ''A''), 1700000000000)], tr'))"
proof -
  have p: "list_all present [sample_tweet ''A'']" by (simp add: sample_tweet_id)
  obtain d tr' where s: "processTweetId_v1 env_batch (tweet_id (sample_tweet ''A'')) [] = (Inr (Success d), tr')"
    using process_batch(1) [of "''A''" "[]"] by (auto simp: sample_tweet_id)
  have f: "processTweetId_v1 env_down (tweet_id (sample_tweet ''A'')) [] =
      (Inr (Failure (JStr (lit ''A'')) (lit ''fetch failed'')), [EvFetch (url_of_id ''A'')])"
    by (simp add: process_down sample_tweet_id)
  from marks_after_every_attempt [OF p, of "processTweetId_v1 env_batch" 1700000000000 "[]" "[]" "[]" "[]"]
    marks_after_every_attempt [OF p, of "processTweetId_v1 env_down" 1700000000000 "[]" "[]" "[]" "[]"]
    s f
  show ?thesis
    by (auto simp: sample_tweet_id)
qed

text \<open>
  Claim C10. In one run of the author endpoint the entry of a skipped id is left
  as it was: its time stamp is the one written at its last attempt, and at any
  later time the id is taken as cached exactly when that time stamp is less than
  the cache duration old. Only the ids of attempted tweets are set to the run's
  \<open>now\<close>, and, the loop having come to its end, such an id is then taken as
  cached exactly while \<open>now\<close> is less than the cache duration old. The loop
  comes to its end where \<open>processTweetId\<close> answers on the ids attempted, as that
  of the second server file does on every id and that of the first on every id
  that converts to a string.
\<close>

theorem skipped_ids_keep_their_time:
  assumes "partition_cached c now tweets [] [] = Inr (toProcess, skipped)"
    and "process_tweets proc now toProcess [] [] c tr = (r, c', tr')"
  shows "(\<forall>k \<in> set skipped.
        cache_get c' k = cache_get c k \<and>
        (\<exists>ts. cache_get c' k = Some ts \<and> ts \<noteq> 0 \<and> now - ts < CACHE_DURATION_MS \<and>
           (\<forall>now2. cache_hit c' now2 k \<longleftrightarrow> now2 - ts < CACHE_DURATION_MS))) \<and>
     ((\<exists>x. r = Inr x) \<longrightarrow>
        (\<forall>t \<in> set toProcess. by_value (tweet_id t) \<longrightarrow>
           cache_get c' (tweet_id t) = Some now \<and>
           (\<forall>now2. cache_hit c' now2 (tweet_id t) \<longleftrightarrow> now \<noteq> 0 \<and> now2 - now < CACHE_DURATION_MS))) \<and>
     (list_all (answers proc) (map tweet_id toProcess) \<longrightarrow> (\<exists>x. r = Inr x)) \<and>
     (proc = processTweetId_v2 ev \<or>
      proc = processTweetId_v1 ev \<and> list_all (printable ev) (map tweet_id toProcess) \<longrightarrow>
        (\<exists>x. r = Inr x))"
proof -
  from partition_cached_acc [OF assms(1)] have
    tp: "toProcess = filter (\<lambda>t. \<not> cache_hit c now (tweet_id t)) tweets" and
    sk: "skipped = map tweet_id (filter (\<lambda>t. cache_hit c now (tweet_id t)) tweets)" and
    pr: "list_all present tweets"
    by simp_all
  from pr tp have ptp: "list_all present toProcess" by (simp add: list_all_iff)
  from process_tweets_processIds [OF this assms(2)] obtain n where
    c': "c' = mark_all now c (take n toProcess)" and
    full: "(\<exists>x. r = Inr x) \<longrightarrow> n = length toProcess"
    by blast
  have ans: "\<exists>x. r = Inr x" if "list_all (answers proc) (map tweet_id toProcess)"
    using process_tweets_answers [OF ptp that, of now "[]" "[]" c tr] assms(2) by auto
  show ?thesis
  proof (intro conjI ballI impI)
    fix k assume "k \<in> set skipped"
    with sk have hit: "cache_hit c now k" by auto
    then obtain ts where ts: "cache_get c k = Some ts" "ts \<noteq> 0" "now - ts < CACHE_DURATION_MS"
      by (auto simp: cache_hit_def split: option.splits)
    from hit tp have "k \<notin> tweet_id ` set toProcess" by auto
    then have "k \<notin> tweet_id ` set (take n toProcess)"
      by (auto dest: in_set_takeD)
    then have same: "cache_get c' k = cache_get c k"
      by (simp add: c' foldl_mark_get)
    then show "cache_get c' k = cache_get c k" .
    from same ts show "\<exists>ts. cache_get c' k = Some ts \<and> ts \<noteq> 0 \<and> now - ts < CACHE_DURATION_MS \<and>
        (\<forall>now2. cache_hit c' now2 k \<longleftrightarrow> now2 - ts < CACHE_DURATION_MS)"
      by (auto simp: cache_hit_def)
  next
    fix t assume t: "\<exists>x. r = Inr x" "t \<in> set toProcess" "by_value (tweet_id t)"
    with full have "c' = mark_all now c toProcess" by (simp add: c')
    with t have g: "cache_get c' (tweet_id t) = Some now"
      by (simp add: foldl_mark_get)
    then show "cache_get c' (tweet_id t) = Some now" .
    from g show "\<forall>now2. cache_hit c' now2 (tweet_id t) \<longleftrightarrow> now \<noteq> 0 \<and> now2 - now < CACHE_DURATION_MS"
      by (simp add: cache_hit_def)
  next
    assume "list_all (answers proc) (map tweet_id toProcess)"
    then show "\<exists>x. r = Inr x" by (rule ans)
  next
    assume "proc = processTweetId_v2 ev \<or>
      proc = processTweetId_v1 ev \<and> list_all (printable ev) (map tweet_id toProcess)"
    then have "list_all (answers proc) (map tweet_id toProcess)"
      by (auto simp: list_all_iff answers_v1 answers_v2)
    then show "\<exists>x. r = Inr x" by (rule ans)
  qed
qed

text \<open>
  \<open>A\<close> was attempted an hour before a run that sees \<open>A\<close> and \<open>C\<close>: \<open>A\<close> keeps its
  time, \<open>C\<close> gets the run's; forty million milliseconds later \<open>C\<close> is still
  cached and \<open>A\<close> is not.
\<close>

theorem skipped_ids_keep_their_time_witness:
  "partition_cached cache_hour_ago 1700000000000 [sample_tweet ''A'', sample_tweet ''C''] [] [] =
     Inr ([sample_tweet ''C''], [JStr (lit ''A'')]) \<and>
   cache_get (fst (snd (process_tweets (processTweetId_v1 env_down) 1700000000000 [sample_tweet ''C'']
       [] [] cache_hour_ago []))) (JStr (lit ''A'')) = Some 1699996400000 \<and>
   cache_get (fst (snd (process_tweets (processTweetId_v1 env_down) 1700000000000 [sample_tweet ''C'']
       [] [] cache_hour_ago []))) (JStr (lit ''C'')) = Some 1700000000000 \<and>
   cache_hit (fst (snd (process_tweets (processTweetId_v1 env_down) 1700000000000 [sample_tweet ''C'']
       [] [] cache_hour_ago []))) 1700040000000 (JStr (lit ''C'')) \<and>
   \<not> cache_hit (fst (snd (process_tweets (processTweetId_v1 env_down) 1700000000000 [sample_tweet ''C'']
       [] [] cache_hour_ago []))) 1700040000000 (JStr (lit ''A''))"
proof -
  have a: "partition_cached cache_hour_ago 1700000000000 [sample_tweet ''A'', sample_tweet ''C''] [] [] =
     Inr ([sample_tweet ''C''], [JStr (lit ''A'')])"
    using author_steps(1) [OF hour_ago_split(1), of "[sample_tweet ''A'', sample_tweet ''C'']" 1700000000000]
    by (simp add: hour_ago_split sample_tweet_id)
  obtain r c' tr' where b: "process_tweets (processTweetId_v1 env_down) 1700000000000 [sample_tweet ''C'']
       [] [] cache_hour_ago [] = (r, c', tr')"
    by (metis prod.exhaust)
  have g: "cache_get cache_hour_ago (JStr (lit ''A'')) = Some 1699996400000"
    by (simp add: cache_hour_ago_def)
  have c': "fst (snd (process_tweets (processTweetId_v1 env_down) 1700000000000 [sample_tweet ''C'']
       [] [] cache_hour_ago [])) = c'"
    by (simp only: b fst_conv snd_conv)
  have pr: "list_all (printable env_down) (map tweet_id [sample_tweet ''C''])"
    by (simp add: sample_tweet_id printable_simps)
  note th = skipped_ids_keep_their_time [OF a b, of env_down]
  from th pr have x: "\<exists>x. r = Inr x" by blast
  have 1: "cache_get c' (JStr (lit ''A'')) = Some 1699996400000"
    using th g by simp
  have 2: "cache_get c' (JStr (lit ''C'')) = Some 1700000000000"
    using th x by (simp add: sample_tweet_id by_value_def)
  have 3: "cache_hit c' 1700040000000 (JStr (lit ''C''))"
    using 2 by (simp add: cache_hit_def CACHE_DURATION_MS_def)
  have 4: "\<not> cache_hit c' 1700040000000 (JStr (lit ''A''))"
    using 1 by (simp add: cache_hit_def CACHE_DURATION_MS_def)
  show ?thesis
    unfolding c' using a 1 2 3 4 by blast
qed

section \<open>The author endpoint on an empty or malformed payload\<close>

lemma env_empty_sel:
  "http_fetch env_empty_payload tr url = Inr \<lparr>resp_ok = True, resp_status = 200, resp_json = Inr (JObj [])\<rparr>"
  "date_now env_empty_payload tr = 1700000000000"
  by (simp_all add: env_empty_payload_def)

lemma env_dup_sel:
  "article_save env_dup tr doc = Inl duplicate_key"
  "find_by_id_and_update env_dup tr i d = Inl duplicate_key"
  "date_now env_dup tr = 1700000000000"
  "generateContent env_dup tr p = Inl (new_Error (lit ''fetch failed''))"
  "http_fetch env_dup tr url = http_fetch env_batch tr url"
  "object_id_valid env_dup i"
  by (simp_all add: env_dup_def env_batch_def)

text \<open>
  Claim C7, as amended. In the second server file, when the body of the content
  API's answer is JSON in which the first of \<open>tweets\<close>, \<open>data.tweets\<close> and \<open>items\<close>
  that is neither \<open>undefined\<close> nor \<open>null\<close> is not an array, or is an empty one, the
  tweets are taken to be the empty list: the endpoint answers 200 with three
  empty lists, calls nothing further and leaves the cache as it was. In the first
  server file an empty \<open>tweets\<close> array under the status \<open>success\<close> is answered
  the same way, but a body whose status is not \<open>success\<close> or whose \<open>tweets\<close> is
  missing is answered with the 500 error \<open>Not found or Twitter API error\<close>.
\<close>

theorem empty_payload_normalized:
  assumes "truthy userName" and "user_url ev userName = Inr url"
    and "http_fetch ev tr url = Inr r" and "resp_json r = Inr data"
  shows "((\<forall>ts. tweets_field_v2 data \<noteq> JArr ts) \<or> tweets_field_v2 data = JArr [] \<longrightarrow>
       user_tweets_v2 data = [] \<and>
       get_user_last_tweets_v2 ev userName c tr =
         (send 200 [(''success'', JArr []), (''failed'', JArr []), (''skipped'', JArr [])],
          c, tr @ [EvFetch url, EvNow])) \<and>
     (resp_ok r \<longrightarrow> opt_prop data ''status'' = JStr (lit ''success'') \<longrightarrow>
        opt_prop data ''tweets'' = JArr [] \<longrightarrow>
       (\<exists>rep. get_user_last_tweets_v1 ev userName c tr =
          (Inr rep, c, tr @ [EvFetch url, EvNow]) \<and>
          reply_status rep = 200 \<and>
          opt_prop (reply_body rep) ''successfulPosts'' = JArr [] \<and>
          opt_prop (reply_body rep) ''failedIds'' = JArr [] \<and>
          opt_prop (reply_body rep) ''skippedCachedIds'' = JArr [])) \<and>
     (resp_ok r \<longrightarrow> present data \<longrightarrow>
        opt_prop data ''status'' \<noteq> JStr (lit ''success'') \<or> \<not> truthy (opt_prop data ''tweets'') \<longrightarrow>
       get_user_last_tweets_v1 ev userName c tr =
         (error_500_v1 (new_Error (lit ''Not found or Twitter API error'')),
          c, tr @ [EvFetch url]))"
proof (intro conjI impI)
  assume "(\<forall>ts. tweets_field_v2 data \<noteq> JArr ts) \<or> tweets_field_v2 data = JArr []"
  then show u: "user_tweets_v2 data = []"
    by (auto simp: user_tweets_v2_def split: jsval.splits)
  with assms show "get_user_last_tweets_v2 ev userName c tr =
         (send 200 [(''success'', JArr []), (''failed'', JArr []), (''skipped'', JArr [])],
          c, tr @ [EvFetch url, EvNow])"
    by (simp add: get_user_last_tweets_v2_def bind_err_def)
next
  assume "resp_ok r" "opt_prop data ''status'' = JStr (lit ''success'')" "opt_prop data ''tweets'' = JArr []"
  moreover from this have "get_prop data ''status'' = Inr (JStr (lit ''success''))"
    by (cases data) (auto simp: opt_prop_def)
  ultimately show "\<exists>rep. get_user_last_tweets_v1 ev userName c tr =
          (Inr rep, c, tr @ [EvFetch url, EvNow]) \<and>
          reply_status rep = 200 \<and>
          opt_prop (reply_body rep) ''successfulPosts'' = JArr [] \<and>
          opt_prop (reply_body rep) ''failedIds'' = JArr [] \<and>
          opt_prop (reply_body rep) ''skippedCachedIds'' = JArr []"
    using assms
    by (simp add: get_user_last_tweets_v1_def bind_err_def user_tweets_v1_def iterate_def
          send_def opt_prop_def lit_eq_iff interp_simps)
next
  assume ok: "resp_ok r" and p: "present data"
    and bad: "opt_prop data ''status'' \<noteq> JStr (lit ''success'') \<or> \<not> truthy (opt_prop data ''tweets'')"
  from p have "get_prop data ''status'' = Inr (opt_prop data ''status'')"
    by (cases data) (auto simp: opt_prop_def present_def)
  with ok bad assms show "get_user_last_tweets_v1 ev userName c tr =
         (error_500_v1 (new_Error (lit ''Not found or Twitter API error'')),
          c, tr @ [EvFetch url])"
    by (auto simp: get_user_last_tweets_v1_def bind_err_def user_tweets_v1_def)
qed

text \<open>The content API answers \<open>{}\<close>: the second file replies with empty lists.\<close>

theorem empty_payload_normalized_witness:
  "user_tweets_v2 (JObj []) = [] \<and>
   get_user_last_tweets_v2 env_empty_payload (JStr (lit ''news'')) cache_hour_ago [] =
     (send 200 [(''success'', JArr []), (''failed'', JArr []), (''skipped'', JArr [])],
      cache_hour_ago, [EvFetch (url_of_user ''news''), EvNow])"
proof -
  have t: "truthy (JStr (lit ''news''))" by (simp add: lit_Nil_iff)
  have f: "tweets_field_v2 (JObj []) = JArr []"
    by (simp add: tweets_field_v2_def nullish_or_def opt_prop_def)
  have j: "resp_json \<lparr>resp_ok = True, resp_status = 200, resp_json = Inr (JObj [])\<rparr> = Inr (JObj [])"
    by simp
  from empty_payload_normalized [where tr = "[]" and c = cache_hour_ago, OF t user_url_lit env_empty_sel(1) j] f
  show ?thesis by simp
qed

text \<open>
  Claim C7 as stated fails in the first server file: on the answer \<open>{}\<close> the
  endpoint replies 500, the error propagated to the caller.
\<close>

theorem empty_object_is_an_error_v1:
  "get_user_last_tweets_v1 env_empty_payload (JStr (lit ''news'')) [] [] =
     (send 500 [(''error'', JStr (lit ''Failed to process user's last tweets'')),
                (''details'', JStr (lit ''Not found or Twitter API error''))],
      [], [EvFetch (url_of_user ''news'')])"
  by (simp add: get_user_last_tweets_v1_def env_empty_sel bind_err_def user_tweets_v1_def
        error_500_v1_def new_Error_def lit_Nil_iff lit_eq_iff user_url_lit opt_prop_def)

section \<open>Duplicate keys\<close>

lemma dup_fetch:
  "i = ''A'' \<or> i = ''C'' \<Longrightarrow>
     http_fetch env_dup tr (url_of_id i) =
       Inr \<lparr>resp_ok = True, resp_status = 200,
            resp_json = Inr (JObj [(lit ''status'', JStr (lit ''success'')),
                                   (lit ''tweets'', JArr [sample_tweet i])])\<rparr>"
  by (simp add: env_dup_sel(5) batch_fetch)

lemma process_dup:
  assumes "i = ''A'' \<or> i = ''C''"
  shows "\<exists>tr'. processTweetId_v1 env_dup (JStr (lit i)) tr =
       (Inr (Failure (JStr (lit i)) (lit ''E11000 duplicate key error'')), tr')"
    and "\<exists>tr'. processTweetId_v2 env_dup (JStr (lit i)) tr =
       (Inr (Failure (JStr (lit i)) (lit ''E11000 duplicate key error'')), tr')"
  using try_sample_v1 [OF dup_fetch [OF assms] env_dup_sel(4) refl, of tr]
    try_sample_v2 [OF dup_fetch [OF assms] env_dup_sel(4) refl, of tr]
  by (auto simp: processTweetId_v1_def processTweetId_v2_def env_dup_sel(1) duplicate_key_def
        interp_simps)

text \<open>
  On insert, in both server files: the store rejects both documents of a batch
  with the duplicate key error, and each is one failure entry of the batch.
\<close>

lemma duplicate_insert_batch:
  "fst (processIds (processTweetId_v1 env_dup) [JStr (lit ''A''), JStr (lit ''C'')] [] [] []) =
     Inr ([], [(JStr (lit ''A''), lit ''E11000 duplicate key error''),
               (JStr (lit ''C''), lit ''E11000 duplicate key error'')])"
  "fst (processIds (processTweetId_v2 env_dup) [JStr (lit ''A''), JStr (lit ''C'')] [] [] []) =
     Inr ([], [(JStr (lit ''A''), lit ''E11000 duplicate key error''),
               (JStr (lit ''C''), lit ''E11000 duplicate key error'')])"
proof -
  obtain t1 where a: "processTweetId_v1 env_dup (JStr (lit ''A'')) [] =
      (Inr (Failure (JStr (lit ''A'')) (lit ''E11000 duplicate key error'')), t1)"
    using process_dup(1) [of "''A''" "[]"] by auto
  obtain t2 where c: "processTweetId_v1 env_dup (JStr (lit ''C'')) t1 =
      (Inr (Failure (JStr (lit ''C'')) (lit ''E11000 duplicate key error'')), t2)"
    using process_dup(1) [of "''C''" t1] by auto
  show "fst (processIds (processTweetId_v1 env_dup) [JStr (lit ''A''), JStr (lit ''C'')] [] [] []) =
     Inr ([], [(JStr (lit ''A''), lit ''E11000 duplicate key error''),
               (JStr (lit ''C''), lit ''E11000 duplicate key error'')])"
    by (simp add: a c)
  obtain u1 where a2: "processTweetId_v2 env_dup (JStr (lit ''A'')) [] =
      (Inr (Failure (JStr (lit ''A'')) (lit ''E11000 duplicate key error'')), u1)"
    using process_dup(2) [of "''A''" "[]"] by auto
  obtain u2 where c2: "processTweetId_v2 env_dup (JStr (lit ''C'')) u1 =
      (Inr (Failure (JStr (lit ''C'')) (lit ''E11000 duplicate key error'')), u2)"
    using process_dup(2) [of "''C''" u1] by auto
  show "fst (processIds (processTweetId_v2 env_dup) [JStr (lit ''A''), JStr (lit ''C'')] [] [] []) =
     Inr ([], [(JStr (lit ''A''), lit ''E11000 duplicate key error''),
               (JStr (lit ''C''), lit ''E11000 duplicate key error'')])"
    by (simp add: a2 c2)
qed

lemma update_article_v1_conflict:
  "printable ev articleId \<Longrightarrow> object_id_valid ev articleId \<Longrightarrow> delete_id body = Inr updatedData \<Longrightarrow>
   find_by_id_and_update ev tr articleId updatedData = Inl e \<Longrightarrow> err_code e = Some 11000 \<Longrightarrow>
     \<exists>rep. post_update_article_v1 ev articleId body tr = (Inr rep, tr @ [EvUpdate articleId updatedData]) \<and>
       reply_status rep = 409"
  by (auto simp: post_update_article_v1_def send_def printable_iff)

lemma update_article_v2_error:
  "find_by_id_and_update ev tr articleId body = Inl e \<Longrightarrow>
     \<exists>rep. post_update_article_v2 ev articleId body tr = (Inr rep, tr @ [EvUpdate articleId body]) \<and>
       reply_status rep = 500"
  by (simp add: post_update_article_v2_def send_def)

text \<open>
  Claim C5 at its failing input. The store rejects an update with the duplicate
  key error 11000: the update endpoint of the second server file answers 500 with
  the driver's message, where the first answers 409. (On insert, the error is one
  more failure entry of the batch in both files, as shown above for a batch of
  two.)
\<close>

theorem update_article_v2_duplicate:
  "post_update_article_v2 env_dup (JStr (lit ''6543210fedcba9876543210f''))
       (JObj [(lit ''slug'', JStr (lit ''taken''))]) [] =
     (send 500 [(''error'', JStr (lit ''E11000 duplicate key error''))],
      [EvUpdate (JStr (lit ''6543210fedcba9876543210f'')) (JObj [(lit ''slug'', JStr (lit ''taken''))])]) \<and>
   post_update_article_v1 env_dup (JStr (lit ''6543210fedcba9876543210f''))
       (JObj [(lit ''slug'', JStr (lit ''taken''))]) [] =
     (send 409 [(''success'', JBool False),
                (''error'', JStr (lit ''Update failed: Duplicate key.'')),
                (''details'', JStr (lit ''A unique field (like slug or tweetId) already exists.''))],
      [EvUpdate (JStr (lit ''6543210fedcba9876543210f'')) (JObj [(lit ''slug'', JStr (lit ''taken''))])])"
  by (simp add: post_update_article_v2_def post_update_article_v1_def env_dup_sel duplicate_key_def
        delete_id_def lit_eq_iff interp_simps)

section \<open>Validation of the request\<close>

lemma validation_v1:
  "get_prop body ''tweet_ids'' = Inr v \<Longrightarrow> \<not> truthy v \<Longrightarrow>
     \<exists>rep. post_fetch_tweet_and_save_v1 ev body tr = (Inr rep, tr) \<and> reply_status rep = 400"
  "\<not> truthy q \<Longrightarrow>
     \<exists>rep. get_fetch_tweet_and_save_v1 ev q tr = (Inr rep, tr) \<and> reply_status rep = 400"
  "\<not> truthy userName \<Longrightarrow>
     \<exists>rep. get_user_last_tweets_v1 ev userName c tr = (Inr rep, c, tr) \<and> reply_status rep = 400"
  "get_prop body ''text'' = Inr t \<Longrightarrow> \<not> truthy t \<or> \<not> truthy (opt_prop body ''instruction'') \<Longrightarrow>
     \<exists>rep. post_summarize_text_v1 ev body tr = (Inr rep, tr) \<and> reply_status rep = 400"
  by (cases v; auto simp: post_fetch_tweet_and_save_v1_def get_fetch_tweet_and_save_v1_def
        get_user_last_tweets_v1_def post_summarize_text_v1_def send_def)+

lemma validation_v2:
  "get_prop body ''tweet_ids'' = Inr v \<Longrightarrow> \<not> truthy v \<Longrightarrow>
     \<exists>rep. post_fetch_tweet_and_save_v2 ev body tr = (Inr rep, tr) \<and> reply_status rep = 400"
  "\<not> truthy userName \<Longrightarrow>
     \<exists>rep. get_user_last_tweets_v2 ev userName c tr = (Inr rep, c, tr) \<and> reply_status rep = 400"
  by (auto simp: post_fetch_tweet_and_save_v2_def get_user_last_tweets_v2_def send_def)

text \<open>
  Claim C6 at its failing inputs, in the second server file. A body without
  \<open>text\<close> and \<open>instruction\<close> is not refused: the generative service is called
  with both \<open>undefined\<close> and the answer is 200. A query without \<open>tweet_ids\<close> is
  answered 200 with two empty lists. The first server file answers 400 to both,
  before any call.
\<close>

theorem summarize_text_v2_unvalidated:
  "post_summarize_text_v2 env_down (JObj []) [] =
     (send 200 [(''success'', JBool True), (''data'', error_record (lit ''Error'') (lit ''fetch failed''))],
      [EvGenerate (TextPrompt JUndefined JUndefined)]) \<and>
   get_fetch_tweet_and_save_v2 env_down JUndefined [] =
     (send 200 [(''success'', JArr []), (''failed'', JArr [])], [])"
  by (simp add: post_summarize_text_v2_def get_fetch_tweet_and_save_v2_def
        formatTextWithGemini_v2_def text_try_v2_def env_down_sel error_record_def new_Error_def
        opt_prop_def interp_simps bind_err_simps)

lemma summarize_text_v1_refuses:
  "post_summarize_text_v1 env_down (JObj []) [] =
     (send 400 [(''error'', JStr (lit ''Both '' @ [39] @ lit ''text'' @ [39] @ lit '' and '' @ [39]
         @ lit ''instruction'' @ [39] @ lit '' are required in the request body.''))], [])"
  by (simp add: post_summarize_text_v1_def opt_prop_def)


text \<open>
  A request that passes the check can still fail before the service is called:
  where the prompt cannot be built, the first file's handler answers 500 from its
  \<open>catch\<close> block and the second file's has no \<open>catch\<close>.
\<close>

lemma truthy_odd: "truthy odd_id"
  by (simp add: odd_id_def)

lemma summarize_text_unprintable:
  "s \<noteq> [] \<Longrightarrow>
     post_summarize_text_v1 ev (JObj [(lit ''text'', JStr s), (lit ''instruction'', odd_id)]) tr =
       (send 500 [(''success'', JBool False),
                  (''error'', JStr (lit ''Failed to process text'')),
                  (''details'', JStr (lit ''Cannot convert object to primitive value''))], tr)"
  "post_summarize_text_v2 ev (JObj [(lit ''text'', JStr s), (lit ''instruction'', odd_id)]) tr =
     (Inl no_primitive, tr)"
  by (simp_all add: post_summarize_text_v1_def post_summarize_text_v2_def opt_prop_JObj lit_eq_iff
        formatText_unprintable described_no_primitive truthy_odd)

end
